theory Spec2Isabelle
  imports Complex_Main "HOL-Library.Sublist"
begin

section \<open>The cleaning pipeline of \<^verbatim>\<open>src/scr/cleaning.py\<close>\<close>

text \<open>
  The source is one function, \<^verbatim>\<open>clean_immo_data(df)\<close>, made of pandas calls on a
  DataFrame. The embedding follows it statement by statement. What pandas (1.x / 2.x, with
  text held in \<^verbatim>\<open>object\<close> columns) does in each call is written out as a HOL function.

  Conventions of the embedding:
  \<^item> a column is a list of cells together with its dtype: an \<^verbatim>\<open>object\<close> column as
    \<^verbatim>\<open>read_csv\<close> builds it holds Python strings and the float \<^verbatim>\<open>nan\<close> as missing marker;
    a numeric column (\<^verbatim>\<open>int64\<close> or \<^verbatim>\<open>float64\<close>) holds floats;
  \<^item> a float is a finite rational, an infinity or \<^verbatim>\<open>NaN\<close>. The special values follow
    IEEE 754. The result of an operation on finite values is the exact result rounded, and
    the rounding is a parameter \<open>rnd\<close> of the model: it maps the exact result to the float
    that stands for it, or to no float when the result overflows, which gives an infinity.
    What is proved for every \<open>rnd\<close> holds for the rounding of \<^verbatim>\<open>float64\<close>. The model has
    one zero: the sign of a zero is not modelled;
  \<^item> a string is a list of bytes; whitespace is the ASCII whitespace of \<^verbatim>\<open>str.strip\<close>.
    \<^verbatim>\<open>str.strip\<close> also strips the Unicode whitespace beyond ASCII (U+0085, U+00A0, ...):
    texts that hold such characters are outside the model, and no property below depends
    on which characters count as whitespace beyond the text \<^verbatim>\<open>nan\<close> holding none;
  \<^item> the frame has the columns the function reads by name (a frame without one of them
    makes the function raise \<^verbatim>\<open>KeyError\<close>), the optional \<^verbatim>\<open>postal_code\<close>, the derived
    \<^verbatim>\<open>price_per_m2\<close>, and the row labels (the index). Other columns are only carried
    along by the source and are left out;
  \<^item> an exception is a value \<open>Inl e\<close> of the result.
\<close>

subsection \<open>Floats\<close>

datatype f64 = Fin rat | PInf | NInf | NaN

fun fneg :: "f64 \<Rightarrow> f64" where
  "fneg (Fin a) = Fin (- a)"
| "fneg PInf = NInf"
| "fneg NInf = PInf"
| "fneg NaN = NaN"

type_synonym rounding = "rat \<Rightarrow> rat option"

text \<open>
  The float of an exact result: the rounded value, or on overflow the infinity of the
  result's sign.
\<close>

definition round_to :: "rounding \<Rightarrow> rat \<Rightarrow> f64" where
  "round_to rnd r = (case rnd r of Some v \<Rightarrow> Fin v | None \<Rightarrow> if 0 < r then PInf else NInf)"

text \<open>The rounding that changes nothing: exact arithmetic.\<close>

definition exact :: rounding where
  "exact r = Some r"

fun fadd :: "rounding \<Rightarrow> f64 \<Rightarrow> f64 \<Rightarrow> f64" where
  "fadd rnd NaN y = NaN"
| "fadd rnd x NaN = NaN"
| "fadd rnd (Fin a) (Fin b) = round_to rnd (a + b)"
| "fadd rnd PInf NInf = NaN"
| "fadd rnd NInf PInf = NaN"
| "fadd rnd PInf y = PInf"
| "fadd rnd x PInf = PInf"
| "fadd rnd NInf y = NInf"
| "fadd rnd x NInf = NInf"

definition fsub :: "rounding \<Rightarrow> f64 \<Rightarrow> f64 \<Rightarrow> f64" where
  "fsub rnd x y = fadd rnd x (fneg y)"

text \<open>The sign of a float that is not \<open>NaN\<close>: \<open>-1\<close>, \<open>0\<close> or \<open>1\<close>.\<close>

fun fsign :: "f64 \<Rightarrow> int" where
  "fsign (Fin a) = (if a < 0 then - 1 else if a = 0 then 0 else 1)"
| "fsign PInf = 1"
| "fsign NInf = - 1"
| "fsign NaN = 0"

fun fmul :: "rounding \<Rightarrow> f64 \<Rightarrow> f64 \<Rightarrow> f64" where
  "fmul rnd NaN y = NaN"
| "fmul rnd x NaN = NaN"
| "fmul rnd (Fin a) (Fin b) = round_to rnd (a * b)"
| "fmul rnd x y =
     (if fsign x = 0 \<or> fsign y = 0 then NaN
      else if fsign x = fsign y then PInf else NInf)"

text \<open>
  Division as numpy does it on floats (and pandas on integer columns): no exception;
  a non-zero number over zero is an infinity, zero over zero is \<open>NaN\<close>. In the code the
  sign of that infinity is the product of the signs of the number and of the zero; the
  model, which has one zero, gives the sign of the number, and no property below depends
  on which of the two infinities it is.
\<close>

fun fdiv :: "rounding \<Rightarrow> f64 \<Rightarrow> f64 \<Rightarrow> f64" where
  "fdiv rnd NaN y = NaN"
| "fdiv rnd x NaN = NaN"
| "fdiv rnd (Fin a) (Fin b) =
     (if b = 0 then (if a = 0 then NaN else if 0 < a then PInf else NInf)
      else round_to rnd (a / b))"
| "fdiv rnd (Fin a) y = Fin 0"
| "fdiv rnd PInf (Fin b) = (if 0 \<le> b then PInf else NInf)"
| "fdiv rnd NInf (Fin b) = (if 0 \<le> b then NInf else PInf)"
| "fdiv rnd x y = NaN"

text \<open>The comparison \<^verbatim>\<open><=\<close>: false whenever an operand is \<open>NaN\<close>.\<close>

fun fle :: "f64 \<Rightarrow> f64 \<Rightarrow> bool" where
  "fle NaN y = False"
| "fle x NaN = False"
| "fle NInf y = True"
| "fle x PInf = True"
| "fle (Fin a) (Fin b) = (a \<le> b)"
| "fle x y = False"

subsection \<open>Columns and frames\<close>

datatype pyobj = ONaN | OStr string

datatype column = ObjectCol "pyobj list" | NumberCol "f64 list"

record frame =
  idx :: "nat list"
  property_id :: column
  price :: column
  living_area :: column
  number_rooms :: column
  facades :: column
  postal_code :: "column option"
  province :: column
  price_per_m2 :: "column option"

datatype error = ValueError | TypeError | OverflowError

fun col_len :: "column \<Rightarrow> nat" where
  "col_len (ObjectCol cs) = length cs"
| "col_len (NumberCol xs) = length xs"

fun opt_len :: "nat \<Rightarrow> column option \<Rightarrow> bool" where
  "opt_len n None = True"
| "opt_len n (Some c) = (col_len c = n)"

text \<open>A DataFrame: every column has one cell per row label.\<close>

definition well_formed :: "frame \<Rightarrow> bool" where
  "well_formed df =
     (let n = length (idx df) in
      col_len (property_id df) = n \<and> col_len (price df) = n \<and>
      col_len (living_area df) = n \<and> col_len (number_rooms df) = n \<and>
      col_len (facades df) = n \<and> opt_len n (postal_code df) \<and>
      col_len (province df) = n \<and> opt_len n (price_per_m2 df))"

text \<open>\<^verbatim>\<open>df[mask]\<close>: the rows at which the boolean mask is true, in order.\<close>

fun select :: "bool list \<Rightarrow> 'a list \<Rightarrow> 'a list" where
  "select (b # bs) (x # xs) = (if b then x # select bs xs else select bs xs)"
| "select bs xs = []"

fun select_col :: "bool list \<Rightarrow> column \<Rightarrow> column" where
  "select_col m (ObjectCol cs) = ObjectCol (select m cs)"
| "select_col m (NumberCol xs) = NumberCol (select m xs)"

definition select_rows :: "bool list \<Rightarrow> frame \<Rightarrow> frame" where
  "select_rows m df =
     \<lparr> idx = select m (idx df),
       property_id = select_col m (property_id df),
       price = select_col m (price df),
       living_area = select_col m (living_area df),
       number_rooms = select_col m (number_rooms df),
       facades = select_col m (facades df),
       postal_code = map_option (select_col m) (postal_code df),
       province = select_col m (province df),
       price_per_m2 = map_option (select_col m) (price_per_m2 df) \<rparr>"

text \<open>\<^verbatim>\<open>Series.notna()\<close>: infinities are not missing.\<close>

fun notna :: "column \<Rightarrow> bool list" where
  "notna (ObjectCol cs) = map (\<lambda>c. c \<noteq> ONaN) cs"
| "notna (NumberCol xs) = map (\<lambda>x. x \<noteq> NaN) xs"

subsection \<open>Step 1: strip whitespace from string columns\<close>

text \<open>
  \<^verbatim>\<open>df[col].astype(str).str.strip().replace({"": np.nan})\<close> on every \<^verbatim>\<open>object\<close> column.
  \<^verbatim>\<open>astype(str)\<close> applies \<^verbatim>\<open>str\<close> to every cell, the missing marker included:
  \<^verbatim>\<open>str(np.nan)\<close> is the text \<^verbatim>\<open>nan\<close>.
\<close>

definition is_space :: "char \<Rightarrow> bool" where
  "is_space c =
     (c \<in> set [CHR 0x09, CHR 0x0A, CHR 0x0B, CHR 0x0C, CHR 0x0D,
                CHR 0x1C, CHR 0x1D, CHR 0x1E, CHR 0x1F, CHR 0x20])"

definition strip :: "string \<Rightarrow> string" where
  "strip s = rev (dropWhile is_space (rev (dropWhile is_space s)))"

fun astype_str :: "pyobj \<Rightarrow> string" where
  "astype_str ONaN = ''nan''"
| "astype_str (OStr s) = s"

fun replace_empty :: "pyobj \<Rightarrow> pyobj" where
  "replace_empty ONaN = ONaN"
| "replace_empty (OStr s) = (if s = [] then ONaN else OStr s)"

definition strip_cell :: "pyobj \<Rightarrow> pyobj" where
  "strip_cell c = replace_empty (OStr (strip (astype_str c)))"

fun strip_column :: "column \<Rightarrow> column" where
  "strip_column (ObjectCol cs) = ObjectCol (map strip_cell cs)"
| "strip_column (NumberCol xs) = NumberCol xs"

definition strip_whitespace :: "frame \<Rightarrow> frame" where
  "strip_whitespace df =
     df \<lparr> property_id := strip_column (property_id df),
          price := strip_column (price df),
          living_area := strip_column (living_area df),
          number_rooms := strip_column (number_rooms df),
          facades := strip_column (facades df),
          postal_code := map_option strip_column (postal_code df),
          province := strip_column (province df),
          price_per_m2 := map_option strip_column (price_per_m2 df) \<rparr>"

subsection \<open>Step 2: remove duplicates\<close>

text \<open>
  \<^verbatim>\<open>df.drop_duplicates(subset=["property_id"], inplace=True)\<close> keeps the first row of
  every identifier. pandas hashes the values: two missing markers count as the same value.
\<close>

fun duplicated :: "'a list \<Rightarrow> 'a list \<Rightarrow> bool list" where
  "duplicated seen [] = []"
| "duplicated seen (x # xs) = (x \<in> set seen) # duplicated (x # seen) xs"

fun first_occurrence :: "column \<Rightarrow> bool list" where
  "first_occurrence (ObjectCol cs) = map Not (duplicated [] cs)"
| "first_occurrence (NumberCol xs) = map Not (duplicated [] xs)"

definition drop_duplicates :: "frame \<Rightarrow> frame" where
  "drop_duplicates df = select_rows (first_occurrence (property_id df)) df"

subsection \<open>Step 3: fix data types\<close>

text \<open>
  \<^verbatim>\<open>pd.to_numeric(df[col], errors="coerce")\<close>: a numeric column is returned as it is; in
  an \<^verbatim>\<open>object\<close> column every text is parsed, and a text that is no number becomes
  \<open>NaN\<close>. The parser of numeric text is pandas' own and is a parameter \<open>parse\<close> here
  (it returns \<open>NaN\<close> where pandas coerces).
\<close>

fun coerce_cell :: "(string \<Rightarrow> f64) \<Rightarrow> pyobj \<Rightarrow> f64" where
  "coerce_cell parse ONaN = NaN"
| "coerce_cell parse (OStr s) = parse s"

fun to_numeric :: "(string \<Rightarrow> f64) \<Rightarrow> column \<Rightarrow> column" where
  "to_numeric parse (NumberCol xs) = NumberCol xs"
| "to_numeric parse (ObjectCol cs) = NumberCol (map (coerce_cell parse) cs)"

text \<open>
  \<^verbatim>\<open>df["postal_code"].astype("Int64").astype(str)\<close>. The cast to the nullable integer
  dtype keeps a missing marker as \<^verbatim>\<open><NA>\<close>. A float must be equal to an integer, else the
  cast raises \<^verbatim>\<open>TypeError\<close> (for an infinity the class of the exception depends on the
  pandas version; the model says \<^verbatim>\<open>TypeError\<close>). A text goes through Python's \<^verbatim>\<open>int(s)\<close>,
  which raises \<^verbatim>\<open>ValueError\<close> unless the text is an integer literal: an optional sign
  and decimal digits, single underscores allowed between digits.
\<close>

definition is_digit :: "char \<Rightarrow> bool" where
  "is_digit c = (48 \<le> (of_char c :: int) \<and> (of_char c :: int) \<le> 57)"

definition digit_val :: "char \<Rightarrow> int" where
  "digit_val c = of_char c - 48"

fun int_literal :: "int \<Rightarrow> string \<Rightarrow> int option" where
  "int_literal acc [] = Some acc"
| "int_literal acc [c] = (if is_digit c then Some (10 * acc + digit_val c) else None)"
| "int_literal acc (c # d # ds) =
     (if is_digit c then int_literal (10 * acc + digit_val c) (d # ds)
      else if c = CHR ''_'' \<and> is_digit d then int_literal (10 * acc + digit_val d) ds
      else None)"

fun unsigned_literal :: "string \<Rightarrow> int option" where
  "unsigned_literal [] = None"
| "unsigned_literal (d # ds) = (if is_digit d then int_literal (digit_val d) ds else None)"

definition py_int :: "string \<Rightarrow> int option" where
  "py_int s =
     (case strip s of
        [] \<Rightarrow> None
      | c # cs \<Rightarrow>
          if c = CHR ''-'' then map_option uminus (unsigned_literal cs)
          else if c = CHR ''+'' then unsigned_literal cs
          else unsigned_literal (c # cs))"

definition in_int64 :: "int \<Rightarrow> bool" where
  "in_int64 i = (- (2 ^ 63) \<le> i \<and> i < 2 ^ 63)"

fun int_of_float :: "f64 \<Rightarrow> error + int option" where
  "int_of_float NaN = Inr None"
| "int_of_float (Fin r) =
     (if of_int \<lfloor>r\<rfloor> = r \<and> in_int64 \<lfloor>r\<rfloor> then Inr (Some \<lfloor>r\<rfloor>) else Inl TypeError)"
| "int_of_float x = Inl TypeError"

fun int_of_obj :: "pyobj \<Rightarrow> error + int option" where
  "int_of_obj ONaN = Inr None"
| "int_of_obj (OStr s) =
     (case py_int s of
        None \<Rightarrow> Inl ValueError
      | Some i \<Rightarrow> if in_int64 i then Inr (Some i) else Inl OverflowError)"

text \<open>The cast of a whole column stops at the first cell that raises.\<close>

fun cast_all :: "('a \<Rightarrow> error + 'b) \<Rightarrow> 'a list \<Rightarrow> error + 'b list" where
  "cast_all f [] = Inr []"
| "cast_all f (x # xs) =
     (case f x of
        Inl e \<Rightarrow> Inl e
      | Inr y \<Rightarrow> (case cast_all f xs of Inl e \<Rightarrow> Inl e | Inr ys \<Rightarrow> Inr (y # ys)))"

fun astype_Int64 :: "column \<Rightarrow> error + int option list" where
  "astype_Int64 (NumberCol xs) = cast_all int_of_float xs"
| "astype_Int64 (ObjectCol cs) = cast_all int_of_obj cs"

definition digit_char :: "int \<Rightarrow> char" where
  "digit_char d = char_of (48 + d)"

function show_digits :: "int \<Rightarrow> string" where
  "show_digits n =
     (if n < 10 then [digit_char n] else show_digits (n div 10) @ [digit_char (n mod 10)])"
  by pat_completeness auto
termination
  by (relation "measure nat") auto

declare show_digits.simps [simp del]

definition show_int :: "int \<Rightarrow> string" where
  "show_int i = (if i < 0 then CHR ''-'' # show_digits (- i) else show_digits i)"

fun str_of_Int64 :: "int option \<Rightarrow> string" where
  "str_of_Int64 None = ''<NA>''"
| "str_of_Int64 (Some i) = show_int i"

definition fix_data_types :: "(string \<Rightarrow> f64) \<Rightarrow> frame \<Rightarrow> error + frame" where
  "fix_data_types parse df =
     (let df1 = df \<lparr> price := to_numeric parse (price df),
                     living_area := to_numeric parse (living_area df),
                     number_rooms := to_numeric parse (number_rooms df),
                     facades := to_numeric parse (facades df) \<rparr>
      in case postal_code df1 of
           None \<Rightarrow> Inr df1
         | Some c \<Rightarrow>
             (case astype_Int64 c of
                Inl e \<Rightarrow> Inl e
              | Inr vs \<Rightarrow>
                  Inr (df1 \<lparr> postal_code :=
                         Some (ObjectCol (map (\<lambda>v. OStr (str_of_Int64 v)) vs)) \<rparr>)))"

subsection \<open>Step 4: remove rows without province\<close>

fun replace_empty_col :: "column \<Rightarrow> column" where
  "replace_empty_col (ObjectCol cs) = ObjectCol (map replace_empty cs)"
| "replace_empty_col (NumberCol xs) = NumberCol xs"

definition remove_rows_without_province :: "frame \<Rightarrow> frame" where
  "remove_rows_without_province df =
     (let df1 = df \<lparr> province := replace_empty_col (province df) \<rparr>
      in select_rows (notna (province df1)) df1)"

subsection \<open>Step 5: compute \<^verbatim>\<open>price_per_m2\<close>\<close>

text \<open>
  \<^verbatim>\<open>df["price"] / df["living_area"]\<close>, cell by cell. Dividing text raises
  \<^verbatim>\<open>TypeError\<close>; after step 3 both columns are numeric.
\<close>

fun divide :: "rounding \<Rightarrow> column \<Rightarrow> column \<Rightarrow> error + column" where
  "divide rnd (NumberCol xs) (NumberCol ys) = Inr (NumberCol (map2 (fdiv rnd) xs ys))"
| "divide rnd x y = Inl TypeError"

definition compute_price_per_m2 :: "rounding \<Rightarrow> frame \<Rightarrow> error + frame" where
  "compute_price_per_m2 rnd df =
     (case divide rnd (price df) (living_area df) of
        Inl e \<Rightarrow> Inl e
      | Inr c \<Rightarrow> Inr (df \<lparr> price_per_m2 := Some c \<rparr>))"

subsection \<open>Step 6: remove outliers using the interquartile range\<close>

text \<open>
  \<^verbatim>\<open>Series.quantile(q)\<close> drops the missing values, sorts the rest and interpolates
  linearly between the two closest ranks (numpy's \<^verbatim>\<open>percentile\<close>, whose interpolation
  formula is \<open>lerp\<close>, every operation of it rounded); of no values at all it is \<open>NaN\<close>.
  The position \<open>q * (n - 1)\<close> and its fraction are exact in \<^verbatim>\<open>float64\<close> for the two
  quartiles.
\<close>

fun insort_f64 :: "f64 \<Rightarrow> f64 list \<Rightarrow> f64 list" where
  "insort_f64 x [] = [x]"
| "insort_f64 x (y # ys) = (if fle x y then x # y # ys else y # insort_f64 x ys)"

definition sort_f64 :: "f64 list \<Rightarrow> f64 list" where
  "sort_f64 xs = foldr insort_f64 xs []"

definition lerp :: "rounding \<Rightarrow> f64 \<Rightarrow> f64 \<Rightarrow> rat \<Rightarrow> f64" where
  "lerp rnd a b t =
     (if 1 / 2 \<le> t then fsub rnd b (fmul rnd (fsub rnd b a) (Fin (1 - t)))
      else fadd rnd a (fmul rnd (fsub rnd b a) (Fin t)))"

definition quantile :: "rounding \<Rightarrow> rat \<Rightarrow> f64 list \<Rightarrow> f64" where
  "quantile rnd q series =
     (let vs = sort_f64 (filter (\<lambda>x. x \<noteq> NaN) series); n = length vs
      in if n = 0 then NaN
         else let pos = q * of_nat (n - 1);
                  lo = nat \<lfloor>pos\<rfloor>;
                  hi = min (lo + 1) (n - 1)
              in lerp rnd (vs ! lo) (vs ! hi) (pos - of_nat lo))"

text \<open>Lines 60 to 64 of the source: the two bounds.\<close>

definition outlier_bounds :: "rounding \<Rightarrow> f64 list \<Rightarrow> f64 \<times> f64" where
  "outlier_bounds rnd series =
     (let q1 = quantile rnd (1 / 4) series;
          q3 = quantile rnd (3 / 4) series;
          iqr = fsub rnd q3 q1;
          lower = fsub rnd q1 (fmul rnd (Fin (3 / 2)) iqr);
          upper = fadd rnd q3 (fmul rnd (Fin (3 / 2)) iqr)
      in (lower, upper))"

text \<open>\<^verbatim>\<open>series.between(lower, upper)\<close> is \<^verbatim>\<open>(series >= lower) & (series <= upper)\<close>.\<close>

definition between :: "f64 \<Rightarrow> f64 \<Rightarrow> f64 \<Rightarrow> bool" where
  "between lower upper x = (fle lower x \<and> fle x upper)"

text \<open>\<^verbatim>\<open>series.where(cond)\<close> keeps a value where the condition holds, else \<open>NaN\<close>.\<close>

definition where_between :: "f64 \<times> f64 \<Rightarrow> f64 \<Rightarrow> f64" where
  "where_between bounds x = (if between (fst bounds) (snd bounds) x then x else NaN)"

fun remove_outliers :: "rounding \<Rightarrow> column \<Rightarrow> error + column" where
  "remove_outliers rnd (NumberCol series) =
     Inr (NumberCol (map (where_between (outlier_bounds rnd series)) series))"
| "remove_outliers rnd (ObjectCol cs) = Inl TypeError"

definition remove_price_area_outliers :: "rounding \<Rightarrow> frame \<Rightarrow> error + frame" where
  "remove_price_area_outliers rnd df =
     (case remove_outliers rnd (price df) of
        Inl e \<Rightarrow> Inl e
      | Inr p \<Rightarrow>
          (case remove_outliers rnd (living_area (df \<lparr> price := p \<rparr>)) of
             Inl e \<Rightarrow> Inl e
           | Inr a \<Rightarrow> Inr (df \<lparr> price := p, living_area := a \<rparr>)))"

text \<open>\<^verbatim>\<open>df.dropna(subset=["price", "living_area"], inplace=True)\<close>.\<close>

definition dropna_price_area :: "frame \<Rightarrow> frame" where
  "dropna_price_area df =
     select_rows (map2 (\<and>) (notna (price df)) (notna (living_area df))) df"

subsection \<open>The pipeline\<close>

definition clean_immo_data ::
  "rounding \<Rightarrow> (string \<Rightarrow> f64) \<Rightarrow> frame \<Rightarrow> error + frame" where
  "clean_immo_data rnd parse df =
     (case fix_data_types parse (drop_duplicates (strip_whitespace df)) of
        Inl e \<Rightarrow> Inl e
      | Inr df3 \<Rightarrow>
          (case compute_price_per_m2 rnd (remove_rows_without_province df3) of
             Inl e \<Rightarrow> Inl e
           | Inr df5 \<Rightarrow>
               (case remove_price_area_outliers rnd df5 of
                  Inl e \<Rightarrow> Inl e
                | Inr df6 \<Rightarrow> Inr (dropna_price_area df6))))"

subsection \<open>Rows\<close>

text \<open>
  The claims speak of rows. A row is the tuple of the cells that the columns hold at one
  position, with its label; an absent optional column gives no cell.
\<close>

datatype cell = Obj pyobj | Num f64

fun cells :: "column \<Rightarrow> cell list" where
  "cells (ObjectCol cs) = map Obj cs"
| "cells (NumberCol xs) = map Num xs"

fun opt_cells :: "nat \<Rightarrow> column option \<Rightarrow> cell option list" where
  "opt_cells n None = replicate n None"
| "opt_cells n (Some c) = map Some (cells c)"

record row =
  label :: nat
  r_property_id :: cell
  r_price :: cell
  r_living_area :: cell
  r_number_rooms :: cell
  r_facades :: cell
  r_postal_code :: "cell option"
  r_province :: cell
  r_price_per_m2 :: "cell option"

fun mk_row ::
  "nat \<times> cell \<times> cell \<times> cell \<times> cell \<times> cell \<times> cell option \<times> cell \<times> cell option \<Rightarrow> row" where
  "mk_row (l, i, p, a, r, f, pc, pv, pm) =
     \<lparr> label = l, r_property_id = i, r_price = p, r_living_area = a, r_number_rooms = r,
       r_facades = f, r_postal_code = pc, r_province = pv, r_price_per_m2 = pm \<rparr>"

definition rows :: "frame \<Rightarrow> row list" where
  "rows df =
     map mk_row
       (zip (idx df) (zip (cells (property_id df)) (zip (cells (price df))
         (zip (cells (living_area df)) (zip (cells (number_rooms df))
           (zip (cells (facades df)) (zip (opt_cells (length (idx df)) (postal_code df))
             (zip (cells (province df))
               (opt_cells (length (idx df)) (price_per_m2 df))))))))))"

text \<open>The missing marker, in a column of either kind.\<close>

fun is_null :: "cell \<Rightarrow> bool" where
  "is_null (Obj c) = (c = ONaN)"
| "is_null (Num x) = (x = NaN)"

subsection \<open>A parser of numeric text and sample tables\<close>

text \<open>
  The examples below need a value for the parameter \<open>parse\<close>. \<open>parse_decimal\<close> reads
  the plain decimal texts (an optional minus sign, digits, an optional fraction) and
  coerces every other text to \<open>NaN\<close>.
\<close>

fun digits_value :: "int \<Rightarrow> string \<Rightarrow> int option" where
  "digits_value acc [] = Some acc"
| "digits_value acc (c # cs) =
     (if is_digit c then digits_value (10 * acc + digit_val c) cs else None)"

definition unsigned_decimal :: "string \<Rightarrow> rat option" where
  "unsigned_decimal s =
     (let ip = takeWhile (\<lambda>c. c \<noteq> CHR ''.'') s;
          fp = drop 1 (dropWhile (\<lambda>c. c \<noteq> CHR ''.'') s)
      in if ip = [] then None
         else case (digits_value 0 ip, digits_value 0 fp) of
                (Some i, Some f) \<Rightarrow> Some (of_int i + of_int f / 10 ^ length fp)
              | _ \<Rightarrow> None)"

definition parse_decimal :: "string \<Rightarrow> f64" where
  "parse_decimal s =
     (case s of
        [] \<Rightarrow> NaN
      | c # cs \<Rightarrow>
          if c = CHR ''-'' then (case unsigned_decimal cs of None \<Rightarrow> NaN | Some r \<Rightarrow> Fin (- r))
          else (case unsigned_decimal s of None \<Rightarrow> NaN | Some r \<Rightarrow> Fin r))"

text \<open>
  \<open>table\<close> is the frame that \<^verbatim>\<open>read_csv\<close> builds from seven columns: the row labels
  are the positions \<open>0, 1, 2, ...\<close> and there is no \<^verbatim>\<open>price_per_m2\<close> yet.
\<close>

definition table ::
  "column \<Rightarrow> column \<Rightarrow> column \<Rightarrow> column \<Rightarrow> column \<Rightarrow> column option \<Rightarrow> column \<Rightarrow> frame" where
  "table ids prices areas rooms facs postal provs =
     \<lparr> idx = [0..<col_len ids], property_id = ids, price = prices, living_area = areas,
       number_rooms = rooms, facades = facs, postal_code = postal, province = provs,
       price_per_m2 = None \<rparr>"

text \<open>
  Seven listings: a repeated identifier (rows 0 and 1), two missing identifiers (rows 2
  and 3), a missing province (row 4), a price far above the others (row 5) and a blank
  province (row 6). Prices and areas are text, postal codes are floats.
\<close>

definition sample_listings :: frame where
  "sample_listings =
     table
       (ObjectCol [OStr ''A123'', OStr ''A123'', ONaN, ONaN, OStr '' B7 '', OStr ''C9'', OStr ''D1''])
       (ObjectCol [OStr ''100000'', OStr ''101000'', OStr ''105000'', OStr ''106000'',
                   OStr ''110000'', OStr ''1000000'', OStr ''98000''])
       (ObjectCol [OStr ''80'', OStr ''81'', OStr ''84'', OStr ''91'', OStr ''100'', OStr ''95'',
                   OStr ''85''])
       (NumberCol [Fin 3, Fin 3, Fin 4, Fin 4, NaN, Fin 5, Fin 2])
       (NumberCol [Fin 2, Fin 2, Fin 3, Fin 3, Fin 4, Fin 4, NaN])
       (Some (NumberCol [Fin 1000, Fin 1000, Fin 5000, NaN, Fin 4000, Fin 9000, Fin 1000]))
       (ObjectCol [OStr '' Liege '', OStr ''Liege'', OStr ''Namur'', OStr ''Namur'', ONaN,
                   OStr ''Gent'', OStr ''  ''])"

definition sample_cleaned :: frame where
  "sample_cleaned =
     \<lparr> idx = [0, 2, 4],
       property_id = ObjectCol [OStr ''A123'', OStr ''nan'', OStr ''B7''],
       price = NumberCol [Fin 100000, Fin 105000, Fin 110000],
       living_area = NumberCol [Fin 80, Fin 84, Fin 100],
       number_rooms = NumberCol [Fin 3, Fin 4, NaN],
       facades = NumberCol [Fin 2, Fin 3, Fin 4],
       postal_code = Some (ObjectCol [OStr ''1000'', OStr ''5000'', OStr ''4000'']),
       province = ObjectCol [OStr ''Liege'', OStr ''Namur'', OStr ''nan''],
       price_per_m2 = Some (NumberCol [Fin 1250, Fin 1250, Fin 1100]) \<rparr>"

text \<open>One listing with the given price and living area, both numeric.\<close>

definition one_listing :: "f64 \<Rightarrow> f64 \<Rightarrow> frame" where
  "one_listing p a =
     table (ObjectCol [OStr ''A123'']) (NumberCol [p]) (NumberCol [a]) (NumberCol [Fin 3])
       (NumberCol [Fin 2]) None (ObjectCol [OStr ''Liege''])"

text \<open>Two listings with the given identifiers and provinces, and no postal code.\<close>

definition two_listings :: "column \<Rightarrow> column \<Rightarrow> frame" where
  "two_listings ids provs =
     table ids (NumberCol [Fin 100000, Fin 120000]) (NumberCol [Fin 80, Fin 100])
       (NumberCol [Fin 3, Fin 4]) (NumberCol [Fin 2, Fin 4]) None provs"

text \<open>One listing with the given postal code column.\<close>

definition postal_listing :: "column \<Rightarrow> frame" where
  "postal_listing postal =
     table (ObjectCol [OStr ''A123'']) (NumberCol [Fin 100000]) (NumberCol [Fin 80])
       (NumberCol [Fin 3]) (NumberCol [Fin 2]) (Some postal) (ObjectCol [OStr ''Liege''])"

text \<open>
  Four listings whose prices are 100000, 105000, 110000 and 1000000: the last price lies
  above the upper bound of the outlier filter.
\<close>

definition four_listings :: frame where
  "four_listings =
     table (ObjectCol [OStr ''A1'', OStr ''A2'', OStr ''A3'', OStr ''A4''])
       (NumberCol [Fin 100000, Fin 105000, Fin 110000, Fin 1000000])
       (NumberCol [Fin 80, Fin 90, Fin 100, Fin 95])
       (NumberCol [Fin 3, Fin 3, Fin 4, Fin 5]) (NumberCol [Fin 2, Fin 2, Fin 3, Fin 4]) None
       (ObjectCol [OStr ''Liege'', OStr ''Namur'', OStr ''Gent'', OStr ''Gent''])"

text \<open>Five listings with the prices 1, 2, 3, 4 and infinity.\<close>

definition five_listings :: frame where
  "five_listings =
     table (ObjectCol [OStr ''A1'', OStr ''A2'', OStr ''A3'', OStr ''A4'', OStr ''A5''])
       (NumberCol [Fin 1, Fin 2, Fin 3, Fin 4, PInf])
       (NumberCol [Fin 80, Fin 90, Fin 100, Fin 95, Fin 85])
       (NumberCol [Fin 3, Fin 3, Fin 4, Fin 5, Fin 2]) (NumberCol [Fin 2, Fin 2, Fin 3, Fin 4, Fin 2])
       None
       (ObjectCol [OStr ''Liege'', OStr ''Namur'', OStr ''Gent'', OStr ''Gent'', OStr ''Mons''])"

text \<open>
  Selecting with \<open>bs\<close> among the rows that \<open>m\<close> has selected is one selection on
  the original rows, with the mask \<open>compose_mask m bs\<close>.
\<close>

fun compose_mask :: "bool list \<Rightarrow> bool list \<Rightarrow> bool list" where
  "compose_mask [] bs = []"
| "compose_mask (False # m) bs = False # compose_mask m bs"
| "compose_mask (True # m) [] = False # compose_mask m []"
| "compose_mask (True # m) (b # bs) = b # compose_mask m bs"

section \<open>Properties\<close>

subsection \<open>Row selection\<close>

lemma select_map: "select m (map f xs) = map f (select m xs)"
  by (induction m xs rule: select.induct) auto

lemma select_map_pred: "select (map P xs) xs = filter P xs"
  by (induction xs) auto

lemma select_take: "select m (take (length m) xs) = select m xs"
  by (induction m xs rule: select.induct) auto

lemma set_select: "set (select m xs) \<subseteq> set xs"
  by (induction m xs rule: select.induct) auto

lemma distinct_select: "distinct xs \<Longrightarrow> distinct (select m xs)"
proof (induction m xs rule: select.induct)
  case (1 b bs x xs)
  then show ?case using set_select[of bs xs] by auto
qed simp_all

lemma cells_select_col: "cells (select_col m c) = select m (cells c)"
  by (cases c) (simp_all add: select_map)

lemma select_rows_simps [simp]:
  "idx (select_rows m df) = select m (idx df)"
  "property_id (select_rows m df) = select_col m (property_id df)"
  "price (select_rows m df) = select_col m (price df)"
  "living_area (select_rows m df) = select_col m (living_area df)"
  "number_rooms (select_rows m df) = select_col m (number_rooms df)"
  "facades (select_rows m df) = select_col m (facades df)"
  "postal_code (select_rows m df) = map_option (select_col m) (postal_code df)"
  "province (select_rows m df) = select_col m (province df)"
  "price_per_m2 (select_rows m df) = map_option (select_col m) (price_per_m2 df)"
  by (simp_all add: select_rows_def)

lemma take_zip_fst:
  "take (min (length ps) (length as)) (map f ps) = map (f \<circ> fst) (zip ps as)"
proof (induction ps arbitrary: as)
  case Nil
  then show ?case by simp
next
  case (Cons p ps)
  then show ?case by (cases as) simp_all
qed

lemma take_zip_snd:
  "take (min (length ps) (length as)) (map g as) = map (g \<circ> snd) (zip ps as)"
proof (induction ps arbitrary: as)
  case Nil
  then show ?case by simp
next
  case (Cons p ps)
  then show ?case by (cases as) simp_all
qed

lemma select_mask_fst:
  "select (map Q (zip ps as)) (map f ps) = map (f \<circ> fst) (filter Q (zip ps as))"
proof -
  have "select (map Q (zip ps as)) (map f ps) =
        select (map Q (zip ps as)) (take (length (map Q (zip ps as))) (map f ps))"
    by (simp only: select_take)
  also have "take (length (map Q (zip ps as))) (map f ps) = map (f \<circ> fst) (zip ps as)"
    by (simp add: take_zip_fst)
  finally show ?thesis
    by (simp add: select_map select_map_pred)
qed

lemma select_mask_snd:
  "select (map Q (zip ps as)) (map g as) = map (g \<circ> snd) (filter Q (zip ps as))"
proof -
  have "select (map Q (zip ps as)) (map g as) =
        select (map Q (zip ps as)) (take (length (map Q (zip ps as))) (map g as))"
    by (simp only: select_take)
  also have "take (length (map Q (zip ps as))) (map g as) = map (g \<circ> snd) (zip ps as)"
    by (simp add: take_zip_snd)
  finally show ?thesis
    by (simp add: select_map select_map_pred)
qed

subsection \<open>The stages of the pipeline\<close>

lemma to_numeric_NumberCol: "\<exists>xs. to_numeric parse c = NumberCol xs"
  by (cases c) simp_all

lemma fix_data_types_Inr:
  assumes "fix_data_types parse df = Inr df3"
  shows "idx df3 = idx df" "property_id df3 = property_id df" "province df3 = province df"
    "price df3 = to_numeric parse (price df)"
    "living_area df3 = to_numeric parse (living_area df)"
    "number_rooms df3 = to_numeric parse (number_rooms df)"
    "facades df3 = to_numeric parse (facades df)"
    "price_per_m2 df3 = price_per_m2 df"
  using assms by (auto simp: fix_data_types_def Let_def split: option.splits sum.splits)

text \<open>
  When the pipeline returns a table, the division and the outlier filter have not raised:
  the table is the result of the final \<^verbatim>\<open>dropna\<close> on the frame of step 4 with its three
  rewritten columns.
\<close>

lemma clean_immo_data_Inr:
  assumes "clean_immo_data rnd parse df = Inr out"
  obtains df3 df4 ps as where
    "fix_data_types parse (drop_duplicates (strip_whitespace df)) = Inr df3"
    "df4 = remove_rows_without_province df3"
    "price df4 = NumberCol ps"
    "living_area df4 = NumberCol as"
    "out = dropna_price_area
             (df4 \<lparr> price_per_m2 := Some (NumberCol (map2 (fdiv rnd) ps as)),
                    price := NumberCol (map (where_between (outlier_bounds rnd ps)) ps),
                    living_area := NumberCol (map (where_between (outlier_bounds rnd as)) as) \<rparr>)"
proof -
  from assms obtain df3 where
    f: "fix_data_types parse (drop_duplicates (strip_whitespace df)) = Inr df3"
    by (auto simp: clean_immo_data_def split: sum.splits)
  define df4 where "df4 = remove_rows_without_province df3"
  obtain ps0 where p0: "price df3 = NumberCol ps0"
    using fix_data_types_Inr(4)[OF f] to_numeric_NumberCol by metis
  obtain as0 where a0: "living_area df3 = NumberCol as0"
    using fix_data_types_Inr(5)[OF f] to_numeric_NumberCol by metis
  obtain ps where p: "price df4 = NumberCol ps"
    using p0 by (simp add: df4_def remove_rows_without_province_def Let_def)
  obtain as where a: "living_area df4 = NumberCol as"
    using a0 by (simp add: df4_def remove_rows_without_province_def Let_def)
  have "out = dropna_price_area
             (df4 \<lparr> price_per_m2 := Some (NumberCol (map2 (fdiv rnd) ps as)),
                    price := NumberCol (map (where_between (outlier_bounds rnd ps)) ps),
                    living_area := NumberCol (map (where_between (outlier_bounds rnd as)) as) \<rparr>)"
    using assms f p a
    by (simp add: clean_immo_data_def df4_def[symmetric] compute_price_per_m2_def
        remove_price_area_outliers_def)
  with f p a df4_def show thesis using that by blast
qed

lemma sample_listings_cleaned:
  "clean_immo_data exact parse_decimal sample_listings = Inr sample_cleaned"
  by code_simp

subsection \<open>Identifiers\<close>

lemma dedup_distinct:
  "distinct (select (map Not (duplicated seen xs)) xs) \<and>
   set (select (map Not (duplicated seen xs)) xs) \<inter> set seen = {}"
proof (induction xs arbitrary: seen)
  case Nil
  then show ?case by simp
next
  case (Cons x xs)
  from Cons[of "x # seen"] show ?case by auto
qed

lemma distinct_cells_first_occurrence:
  "distinct (cells (select_col (first_occurrence c) c))"
  by (cases c) (simp_all add: distinct_map dedup_distinct inj_on_def)

lemma property_id_remove_rows_without_province:
  "property_id (remove_rows_without_province df) =
     select_col (notna (replace_empty_col (province df))) (property_id df)"
  by (simp add: remove_rows_without_province_def Let_def)

text \<open>
  C8. In the table that the pipeline returns, the \<^verbatim>\<open>property_id\<close> values are pairwise
  distinct: the deduplication makes them so (the missing marker counts as one value), and
  every later stage only removes rows or rewrites other columns.
\<close>

theorem output_property_ids_distinct:
  assumes "clean_immo_data rnd parse df = Inr out"
  shows "distinct (cells (property_id out))"
proof -
  from assms obtain df3 df4 ps as where
    f: "fix_data_types parse (drop_duplicates (strip_whitespace df)) = Inr df3" and
    d4: "df4 = remove_rows_without_province df3" and
    out: "out = dropna_price_area
             (df4 \<lparr> price_per_m2 := Some (NumberCol (map2 (fdiv rnd) ps as)),
                    price := NumberCol (map (where_between (outlier_bounds rnd ps)) ps),
                    living_area := NumberCol (map (where_between (outlier_bounds rnd as)) as) \<rparr>)"
    by (rule clean_immo_data_Inr)
  have "property_id df3 = property_id (drop_duplicates (strip_whitespace df))"
    by (rule fix_data_types_Inr(2)[OF f])
  then have "distinct (cells (property_id df3))"
    by (simp add: drop_duplicates_def distinct_cells_first_occurrence)
  then have "distinct (cells (property_id df4))"
    by (simp add: d4 property_id_remove_rows_without_province cells_select_col distinct_select)
  then show ?thesis
    by (simp add: out dropna_price_area_def cells_select_col distinct_select)
qed

theorem output_property_ids_distinct_witness:
  "clean_immo_data exact parse_decimal sample_listings = Inr sample_cleaned \<and>
   distinct (cells (property_id sample_cleaned))"
  using output_property_ids_distinct[OF sample_listings_cleaned]
    sample_listings_cleaned by simp

subsection \<open>The derived metric\<close>

lemma where_between_not_NaN: "where_between b x \<noteq> NaN \<Longrightarrow> where_between b x = x"
  by (simp add: where_between_def split: if_splits)

lemma map2_conj_notna:
  "map2 (\<and>) (map (\<lambda>x. x \<noteq> NaN) (map f ps)) (map (\<lambda>x. x \<noteq> NaN) (map g as)) =
   map (\<lambda>(p, a). f p \<noteq> NaN \<and> g a \<noteq> NaN) (zip ps as)"
proof (induction ps arbitrary: as)
  case Nil
  then show ?case by simp
next
  case (Cons p ps)
  then show ?case by (cases as) simp_all
qed

lemma fdiv_NaN_iff:
  "fdiv rnd p a = NaN \<longleftrightarrow>
     p = NaN \<or> a = NaN \<or> (p = Fin 0 \<and> a = Fin 0) \<or> (p \<in> {PInf, NInf} \<and> a \<in> {PInf, NInf})"
  by (cases p; cases a) (auto simp: round_to_def split: option.splits)

text \<open>
  C7 (as amended). In every row of the table that the pipeline returns,
  \<^verbatim>\<open>price_per_m2\<close> is the quotient of the row's \<^verbatim>\<open>price\<close> and \<^verbatim>\<open>living_area\<close>, which
  are both present; the quotient itself is the missing marker exactly when it is undefined:
  zero over zero, or an infinity over an infinity.
\<close>

theorem output_price_per_m2:
  assumes "clean_immo_data rnd parse df = Inr out"
  shows "\<exists>ps as. price out = NumberCol ps \<and> living_area out = NumberCol as \<and>
           length ps = length as \<and>
           price_per_m2 out = Some (NumberCol (map2 (fdiv rnd) ps as)) \<and>
           NaN \<notin> set ps \<and> NaN \<notin> set as \<and>
           (\<forall>i < length ps.
              (map2 (fdiv rnd) ps as ! i = NaN) =
                (ps ! i = Fin 0 \<and> as ! i = Fin 0 \<or>
                 ps ! i \<in> {PInf, NInf} \<and> as ! i \<in> {PInf, NInf}))"
proof -
  from assms obtain df3 df4 ps as where
    f: "fix_data_types parse (drop_duplicates (strip_whitespace df)) = Inr df3" and
    d4: "df4 = remove_rows_without_province df3" and
    p: "price df4 = NumberCol ps" and a: "living_area df4 = NumberCol as" and
    out: "out = dropna_price_area
             (df4 \<lparr> price_per_m2 := Some (NumberCol (map2 (fdiv rnd) ps as)),
                    price := NumberCol (map (where_between (outlier_bounds rnd ps)) ps),
                    living_area := NumberCol (map (where_between (outlier_bounds rnd as)) as) \<rparr>)"
    by (rule clean_immo_data_Inr)
  define wp where "wp = where_between (outlier_bounds rnd ps)"
  define wa where "wa = where_between (outlier_bounds rnd as)"
  define Q where "Q = (\<lambda>(p, a). wp p \<noteq> NaN \<and> wa a \<noteq> NaN)"
  define F where "F = filter Q (zip ps as)"
  have kept: "wp x = x \<and> wa y = y \<and> x \<noteq> NaN \<and> y \<noteq> NaN" if "(x, y) \<in> set F" for x y
  proof -
    from that have "wp x \<noteq> NaN" "wa y \<noteq> NaN" by (auto simp: F_def Q_def)
    then show ?thesis using where_between_not_NaN[of "outlier_bounds rnd ps" x]
        where_between_not_NaN[of "outlier_bounds rnd as" y] by (auto simp: wp_def wa_def)
  qed
  have mask: "map2 (\<and>) (map (\<lambda>x. x \<noteq> NaN) (map wp ps)) (map (\<lambda>x. x \<noteq> NaN) (map wa as)) =
      map Q (zip ps as)"
    unfolding Q_def by (rule map2_conj_notna)
  have po: "price out = NumberCol (map (wp \<circ> fst) F)"
    unfolding out dropna_price_area_def F_def
    by (simp add: wp_def[symmetric] wa_def[symmetric] mask select_mask_fst del: map_map)
  have ao: "living_area out = NumberCol (map (wa \<circ> snd) F)"
    unfolding out dropna_price_area_def F_def
    by (simp add: wp_def[symmetric] wa_def[symmetric] mask select_mask_snd del: map_map)
  have mo: "price_per_m2 out = Some (NumberCol (map (\<lambda>(p, a). fdiv rnd p a) F))"
    unfolding out dropna_price_area_def F_def
    by (simp add: wp_def[symmetric] wa_def[symmetric] mask select_map select_map_pred del: map_map)
  have "\<forall>z \<in> set F. (wp \<circ> fst) z = fst z" using kept by auto
  then have p': "map (wp \<circ> fst) F = map fst F" by simp
  have "\<forall>z \<in> set F. (wa \<circ> snd) z = snd z" using kept by auto
  then have a': "map (wa \<circ> snd) F = map snd F" by simp
  have z: "map2 (fdiv rnd) (map fst F) (map snd F) = map (\<lambda>(p, a). fdiv rnd p a) F"
    by (simp add: zip_map_fst_snd)
  have n1: "NaN \<notin> set (map fst F)" using kept by force
  have n2: "NaN \<notin> set (map snd F)" using kept by force
  have nulls: "(map2 (fdiv rnd) (map fst F) (map snd F) ! i = NaN) =
      (map fst F ! i = Fin 0 \<and> map snd F ! i = Fin 0 \<or>
       map fst F ! i \<in> {PInf, NInf} \<and> map snd F ! i \<in> {PInf, NInf})"
    if "i < length (map fst F)" for i
  proof -
    from that have "F ! i \<in> set F" by simp
    then have "fst (F ! i) \<noteq> NaN" "snd (F ! i) \<noteq> NaN"
      using kept[of "fst (F ! i)" "snd (F ! i)"] by auto
    then show ?thesis using that fdiv_NaN_iff[of rnd "fst (F ! i)" "snd (F ! i)"]
      by (simp add: z split_beta)
  qed
  show ?thesis
    apply (rule exI[of _ "map fst F"], rule exI[of _ "map snd F"])
    using po ao mo p' a' z n1 n2 nulls by simp
qed

theorem output_price_per_m2_witness:
  "clean_immo_data exact parse_decimal sample_listings = Inr sample_cleaned \<and>
   (\<exists>ps as. price sample_cleaned = NumberCol ps \<and> living_area sample_cleaned = NumberCol as \<and>
           length ps = length as \<and>
           price_per_m2 sample_cleaned = Some (NumberCol (map2 (fdiv exact) ps as)) \<and>
           NaN \<notin> set ps \<and> NaN \<notin> set as)"
  using output_price_per_m2[OF sample_listings_cleaned] sample_listings_cleaned by blast

text \<open>
  The claim as stated fails: a listing with price 0 and living area 0 passes the outlier
  filter and reaches the output with a missing \<^verbatim>\<open>price_per_m2\<close>.
\<close>

theorem zero_over_zero_counterexample:
  "map_sum id price_per_m2 (clean_immo_data exact parse_decimal (one_listing (Fin 0) (Fin 0))) =
     Inr (Some (NumberCol [NaN]))"
  by code_simp

lemma fdiv_by_zero:
  "(p = NaN \<or> a = NaN \<longrightarrow> fdiv rnd p a = NaN) \<and>
   (p = Fin 0 \<and> a = Fin 0 \<longrightarrow> fdiv rnd p a = NaN) \<and>
   (a = Fin 0 \<and> p \<noteq> NaN \<and> p \<noteq> Fin 0 \<longrightarrow> fdiv rnd p a \<in> {PInf, NInf})"
  by (cases p; cases a) (auto split: if_splits)

text \<open>
  C2 (as amended). After the type coercion the division raises no exception. In every
  row, \<^verbatim>\<open>price_per_m2\<close> is the missing marker when \<^verbatim>\<open>price\<close> or \<^verbatim>\<open>living_area\<close> is missing
  and when both are zero; when \<^verbatim>\<open>living_area\<close> is zero and \<^verbatim>\<open>price\<close> is any other number,
  it is an infinity, not the missing marker.
\<close>

theorem price_per_m2_division:
  assumes "fix_data_types parse df = Inr df3"
  shows "\<exists>ps as. price (remove_rows_without_province df3) = NumberCol ps \<and>
           living_area (remove_rows_without_province df3) = NumberCol as \<and>
           compute_price_per_m2 rnd (remove_rows_without_province df3) =
             Inr ((remove_rows_without_province df3)
                    \<lparr> price_per_m2 := Some (NumberCol (map2 (fdiv rnd) ps as)) \<rparr>) \<and>
           (\<forall>i. i < length ps \<and> i < length as \<longrightarrow>
              (ps ! i = NaN \<or> as ! i = NaN \<longrightarrow> map2 (fdiv rnd) ps as ! i = NaN) \<and>
              (ps ! i = Fin 0 \<and> as ! i = Fin 0 \<longrightarrow> map2 (fdiv rnd) ps as ! i = NaN) \<and>
              (as ! i = Fin 0 \<and> ps ! i \<noteq> NaN \<and> ps ! i \<noteq> Fin 0 \<longrightarrow>
                 map2 (fdiv rnd) ps as ! i \<in> {PInf, NInf}))"
proof -
  obtain ps0 where p0: "price df3 = NumberCol ps0"
    using fix_data_types_Inr(4)[OF assms] to_numeric_NumberCol by metis
  obtain as0 where a0: "living_area df3 = NumberCol as0"
    using fix_data_types_Inr(5)[OF assms] to_numeric_NumberCol by metis
  define df4 where "df4 = remove_rows_without_province df3"
  obtain ps where p: "price df4 = NumberCol ps"
    using p0 by (simp add: df4_def remove_rows_without_province_def Let_def)
  obtain as where a: "living_area df4 = NumberCol as"
    using a0 by (simp add: df4_def remove_rows_without_province_def Let_def)
  have c: "compute_price_per_m2 rnd df4 =
      Inr (df4 \<lparr> price_per_m2 := Some (NumberCol (map2 (fdiv rnd) ps as)) \<rparr>)"
    by (simp add: compute_price_per_m2_def p a)
  have r: "(ps ! i = NaN \<or> as ! i = NaN \<longrightarrow> map2 (fdiv rnd) ps as ! i = NaN) \<and>
              (ps ! i = Fin 0 \<and> as ! i = Fin 0 \<longrightarrow> map2 (fdiv rnd) ps as ! i = NaN) \<and>
              (as ! i = Fin 0 \<and> ps ! i \<noteq> NaN \<and> ps ! i \<noteq> Fin 0 \<longrightarrow>
                 map2 (fdiv rnd) ps as ! i \<in> {PInf, NInf})"
    if "i < length ps" "i < length as" for i
    using that fdiv_by_zero[of "ps ! i" "as ! i" rnd] by simp
  show ?thesis
    unfolding df4_def[symmetric] using p a c r by blast
qed

lemma zero_area_types: "fix_data_types parse_decimal (one_listing (Fin 200000) (Fin 0)) =
    Inr (one_listing (Fin 200000) (Fin 0))"
  by code_simp

theorem price_per_m2_division_witness:
  "fix_data_types parse_decimal (one_listing (Fin 200000) (Fin 0)) =
     Inr (one_listing (Fin 200000) (Fin 0)) \<and>
   (\<exists>ps as. price (remove_rows_without_province (one_listing (Fin 200000) (Fin 0))) = NumberCol ps \<and>
           living_area (remove_rows_without_province (one_listing (Fin 200000) (Fin 0))) = NumberCol as \<and>
           compute_price_per_m2 exact (remove_rows_without_province (one_listing (Fin 200000) (Fin 0))) =
             Inr ((remove_rows_without_province (one_listing (Fin 200000) (Fin 0)))
                    \<lparr> price_per_m2 := Some (NumberCol (map2 (fdiv exact) ps as)) \<rparr>))"
  using price_per_m2_division[OF zero_area_types] zero_area_types by blast

text \<open>
  The claim as stated fails: a listing with price 200000 and living area 0 reaches the
  output with an infinite \<^verbatim>\<open>price_per_m2\<close>.
\<close>

theorem zero_area_counterexample:
  "map_sum id price_per_m2 (clean_immo_data exact parse_decimal (one_listing (Fin 200000) (Fin 0))) =
     Inr (Some (NumberCol [PInf]))"
  by code_simp

subsection \<open>Text columns and the province filter\<close>

lemma strip_nan: "strip ''nan'' = ''nan''"
  by (simp add: strip_def is_space_def)

lemma strip_cell_cases:
  "(c = ONaN \<longrightarrow> strip_cell c = OStr ''nan'') \<and>
   (strip_cell c = ONaN \<longleftrightarrow> (\<exists>s. c = OStr s \<and> strip s = []))"
  by (cases c) (simp_all add: strip_cell_def strip_nan)

text \<open>
  C9 (as amended). In a text column, step 1 turns every missing marker into the text
  \<^verbatim>\<open>nan\<close>, and it leaves a missing marker exactly where the input held a text that is empty
  after trimming.
\<close>

theorem strip_column_nulls:
  "strip_column (ObjectCol cs) = ObjectCol (map strip_cell cs) \<and>
   (\<forall>i < length cs.
      (cs ! i = ONaN \<longrightarrow> map strip_cell cs ! i = OStr ''nan'') \<and>
      (map strip_cell cs ! i = ONaN \<longleftrightarrow> (\<exists>s. cs ! i = OStr s \<and> strip s = [])))"
  using strip_cell_cases by simp

theorem strip_column_nulls_witness:
  "(1 :: nat) < length [ONaN, OStr ''  '', OStr '' Liege ''] \<and>
   map strip_cell [ONaN, OStr ''  '', OStr '' Liege ''] ! 0 = OStr ''nan'' \<and>
   map strip_cell [ONaN, OStr ''  '', OStr '' Liege ''] ! 1 = ONaN \<and>
   strip ''  '' = []"
proof -
  let ?cs = "[ONaN, OStr ''  '', OStr '' Liege '']"
  have s: "strip ''  '' = []"
    by (simp add: strip_def is_space_def)
  have a: "\<forall>i < length ?cs.
      (?cs ! i = ONaN \<longrightarrow> map strip_cell ?cs ! i = OStr ''nan'') \<and>
      (map strip_cell ?cs ! i = ONaN \<longleftrightarrow> (\<exists>s. ?cs ! i = OStr s \<and> strip s = []))"
    using strip_column_nulls[of ?cs] by (rule conjunct2)
  have "map strip_cell ?cs ! 0 = OStr ''nan''"
    using a[rule_format, of 0] by simp
  moreover have "map strip_cell ?cs ! 1 = ONaN"
    using a[rule_format, of 1] s by simp
  ultimately show ?thesis using s by simp
qed

text \<open>
  The claim as stated fails in its consequence: after step 1 a text column can hold a
  missing marker, the one that replaces a blank text.
\<close>

theorem blank_text_becomes_null_counterexample:
  "strip_column (ObjectCol [ONaN, OStr ''  '', OStr '' Liege '']) =
     ObjectCol [OStr ''nan'', ONaN, OStr ''Liege'']"
  by code_simp

text \<open>
  C1. The first listing has no province. Step 1 turns the missing marker into the text
  \<^verbatim>\<open>nan\<close>, the filter of step 4 sees a text, and the row is in the output.
\<close>

theorem null_province_row_kept:
  "clean_immo_data exact parse_decimal
     (two_listings (ObjectCol [OStr ''A1'', OStr ''A2'']) (ObjectCol [ONaN, OStr ''Liege''])) =
   Inr \<lparr> idx = [0, 1],
         property_id = ObjectCol [OStr ''A1'', OStr ''A2''],
         price = NumberCol [Fin 100000, Fin 120000],
         living_area = NumberCol [Fin 80, Fin 100],
         number_rooms = NumberCol [Fin 3, Fin 4],
         facades = NumberCol [Fin 2, Fin 4],
         postal_code = None,
         province = ObjectCol [OStr ''nan'', OStr ''Liege''],
         price_per_m2 = Some (NumberCol [Fin 1250, Fin 1200]) \<rparr>"
  by code_simp

subsection \<open>Deduplication\<close>

lemma length_select: "length xs = length m \<Longrightarrow> length (select m xs) = length (filter id m)"
  by (induction m xs rule: select.induct) auto

lemma select_zip: "select m (zip xs ys) = zip (select m xs) (select m ys)"
proof (induction m arbitrary: xs ys)
  case Nil
  then show ?case by simp
next
  case (Cons b m)
  then show ?case by (cases xs; cases ys) auto
qed

lemma select_replicate:
  "select m (replicate (length m) x) = replicate (length (filter id m)) x"
  by (induction m) auto

lemma col_len_cells: "length (cells c) = col_len c"
  by (cases c) simp_all

lemma opt_cells_select:
  assumes "opt_len (length m) c" "length ix = length m"
  shows "opt_cells (length (select m ix)) (map_option (select_col m) c) =
         select m (opt_cells (length m) c)"
proof (cases c)
  case None
  then show ?thesis using assms by (simp add: select_replicate length_select)
next
  case (Some a)
  then show ?thesis by (simp add: cells_select_col select_map)
qed

lemma rows_select_rows:
  assumes "well_formed df" "length m = length (idx df)"
  shows "rows (select_rows m df) = select m (rows df)"
proof -
  have o1: "opt_len (length m) (postal_code df)" and o2: "opt_len (length m) (price_per_m2 df)"
    using assms by (simp_all add: well_formed_def Let_def)
  show ?thesis
    unfolding rows_def
    using opt_cells_select[OF o1, of "idx df"] opt_cells_select[OF o2, of "idx df"] assms(2)
    by (simp add: select_map select_zip cells_select_col)
qed

lemma length_duplicated: "length (duplicated seen xs) = length xs"
  by (induction xs arbitrary: seen) auto

lemma nth_duplicated:
  "i < length xs \<Longrightarrow> duplicated seen xs ! i = (xs ! i \<in> set seen \<union> set (take i xs))"
proof (induction xs arbitrary: seen i)
  case Nil
  then show ?case by simp
next
  case (Cons x xs)
  then show ?case by (cases i) auto
qed


lemma select_eq_nths:
  assumes "length m = length xs"
  shows "select m xs = map (nth xs) (filter (nth m) [0..<length xs])"
proof -
  have "select m xs = select (map (nth m) [0..<length xs]) (map (nth xs) [0..<length xs])"
    using assms map_nth[of m] map_nth[of xs] by simp
  then show ?thesis
    by (simp only: select_map select_map_pred)
qed

lemma duplicated_map_inj:
  "inj f \<Longrightarrow> duplicated (map f seen) (map f xs) = duplicated seen xs"
proof (induction xs arbitrary: seen)
  case Nil
  then show ?case by simp
next
  case (Cons x xs)
  from Cons.IH[OF Cons.prems, of "x # seen"] Cons.prems show ?case
    by (auto simp: inj_def)
qed

lemma first_occurrence_cells: "first_occurrence c = map Not (duplicated [] (cells c))"
proof (cases c)
  case (ObjectCol cs)
  have "inj Obj" by (simp add: inj_def)
  from duplicated_map_inj[OF this, of "[]" cs] ObjectCol show ?thesis by simp
next
  case (NumberCol xs)
  have "inj Num" by (simp add: inj_def)
  from duplicated_map_inj[OF this, of "[]" xs] NumberCol show ?thesis by simp
qed

lemma map_fst_snd_zip:
  "length xs = length ys \<Longrightarrow> length ys \<le> length zs \<Longrightarrow>
     map (\<lambda>t. fst (snd t)) (zip xs (zip ys zs)) = ys"
proof (induction xs arbitrary: ys zs)
  case Nil
  then show ?case by simp
next
  case (Cons x xs)
  then show ?case by (cases ys; cases zs) auto
qed

lemma length_opt_cells: "opt_len n c \<Longrightarrow> length (opt_cells n c) = n"
  by (cases c) (simp_all add: col_len_cells)

lemma property_ids_of_rows:
  assumes "well_formed df"
  shows "map r_property_id (rows df) = cells (property_id df)"
proof -
  have r: "r_property_id (mk_row t) = fst (snd t)" for t
    by (cases t rule: mk_row.cases) simp
  have l: "length (idx df) = length (cells (property_id df))"
    using assms by (simp add: well_formed_def Let_def col_len_cells)
  have "length (cells (property_id df)) \<le>
      length (zip (cells (price df)) (zip (cells (living_area df)) (zip (cells (number_rooms df))
           (zip (cells (facades df)) (zip (opt_cells (length (idx df)) (postal_code df))
             (zip (cells (province df))
               (opt_cells (length (idx df)) (price_per_m2 df))))))))"
    using assms by (simp add: well_formed_def Let_def col_len_cells length_opt_cells)
  from map_fst_snd_zip[OF l this] show ?thesis
    by (simp add: rows_def r comp_def)
qed

lemma length_rows: "well_formed df \<Longrightarrow> length (rows df) = length (idx df)"
  by (simp add: rows_def well_formed_def Let_def col_len_cells length_opt_cells)

lemma rows_drop_duplicates:
  assumes "well_formed df"
  shows "rows (drop_duplicates df) =
         select (map Not (duplicated [] (map r_property_id (rows df)))) (rows df)"
proof -
  have "length (first_occurrence (property_id df)) = length (idx df)"
    using assms
    by (simp add: first_occurrence_cells length_duplicated col_len_cells well_formed_def Let_def)
  from rows_select_rows[OF assms this] show ?thesis
    by (simp add: drop_duplicates_def first_occurrence_cells property_ids_of_rows[OF assms])
qed

text \<open>
  C4. The rows that the deduplication step keeps are, in input order, the rows whose
  \<^verbatim>\<open>property_id\<close> occurs in no earlier row: of every identifier the first row stays and
  the later rows go, and the rows that stay are unchanged.
\<close>

theorem drop_duplicates_keeps_first:
  assumes "well_formed df"
  shows "rows (drop_duplicates df) =
         map (nth (rows df))
           (filter (\<lambda>i. \<forall>j < i. r_property_id (rows df ! j) \<noteq> r_property_id (rows df ! i))
              [0..<length (rows df)])"
proof -
  define rs where "rs = rows df"
  define ids where "ids = map r_property_id rs"
  have n: "length ids = length rs" by (simp add: ids_def)
  have c: "(map Not (duplicated [] ids) ! i) =
           (\<forall>j < i. r_property_id (rs ! j) \<noteq> r_property_id (rs ! i))"
    if "i < length rs" for i
  proof -
    have "(ids ! i \<in> set (take i ids)) = (\<exists>j < i. ids ! j = ids ! i)"
      using that n by (auto simp: in_set_conv_nth)
    moreover have "ids ! j = r_property_id (rs ! j)" if "j \<le> i" for j
      using that \<open>i < length rs\<close> by (simp add: ids_def)
    ultimately show ?thesis
      using that n by (auto simp: nth_duplicated length_duplicated)
  qed
  have "rows (drop_duplicates df) = select (map Not (duplicated [] ids)) rs"
    unfolding ids_def rs_def by (rule rows_drop_duplicates[OF assms])
  also have "\<dots> = map (nth rs) (filter (nth (map Not (duplicated [] ids))) [0..<length rs])"
    by (rule select_eq_nths) (simp add: length_duplicated n)
  also have "filter (nth (map Not (duplicated [] ids))) [0..<length rs] =
      filter (\<lambda>i. \<forall>j < i. r_property_id (rs ! j) \<noteq> r_property_id (rs ! i)) [0..<length rs]"
    by (rule filter_cong) (use c in auto)
  finally show ?thesis by (simp add: rs_def)
qed

lemma sample_well_formed: "well_formed sample_listings"
  by (simp add: sample_listings_def table_def well_formed_def)

theorem drop_duplicates_keeps_first_witness:
  "well_formed sample_listings \<and>
   rows (drop_duplicates sample_listings) =
     map (nth (rows sample_listings))
       (filter (\<lambda>i. \<forall>j < i. r_property_id (rows sample_listings ! j) \<noteq>
                              r_property_id (rows sample_listings ! i))
          [0..<length (rows sample_listings)]) \<and>
   map label (rows (drop_duplicates sample_listings)) = [0, 2, 4, 5, 6]"
proof -
  have "map label (rows (drop_duplicates sample_listings)) = [0, 2, 4, 5, 6]"
    by code_simp
  then show ?thesis
    using drop_duplicates_keeps_first[OF sample_well_formed] sample_well_formed by simp
qed

lemma dedup_filter_value:
  "filter (\<lambda>x. f x = v) (select (map Not (duplicated seen (map f xs))) xs) =
     (if v \<in> set seen then [] else take 1 (filter (\<lambda>x. f x = v) xs))"
proof (induction xs arbitrary: seen)
  case Nil
  then show ?case by simp
next
  case (Cons x xs)
  from Cons[of "f x # seen"] show ?case by auto
qed

text \<open>
  C5 (as amended). The deduplication step treats the rows without identifier as equal to
  one another: of the rows whose \<^verbatim>\<open>property_id\<close> is the missing marker, only the first
  is kept. The step returns a frame and raises nothing.
\<close>

theorem null_identifiers_deduplicated:
  assumes "well_formed df"
  shows "filter (\<lambda>r. is_null (r_property_id r)) (rows (drop_duplicates df)) =
         take 1 (filter (\<lambda>r. is_null (r_property_id r)) (rows df))"
proof -
  obtain v where v: "\<forall>c \<in> set (cells (property_id df)). is_null c = (c = v)"
  proof (cases "property_id df")
    case (ObjectCol cs)
    then have "\<forall>c \<in> set (cells (property_id df)). is_null c = (c = Obj ONaN)" by auto
    then show ?thesis using that by blast
  next
    case (NumberCol xs)
    then have "\<forall>c \<in> set (cells (property_id df)). is_null c = (c = Num NaN)" by auto
    then show ?thesis using that by blast
  qed
  have ids: "set (map r_property_id (rows df)) = set (cells (property_id df))"
    by (simp only: property_ids_of_rows[OF assms])
  have in_rows: "is_null (r_property_id r) = (r_property_id r = v)" if "r \<in> set (rows df)" for r
    using that v ids by force
  have sub: "set (rows (drop_duplicates df)) \<subseteq> set (rows df)"
    by (simp add: rows_drop_duplicates[OF assms] set_select)
  have "filter (\<lambda>r. is_null (r_property_id r)) (rows (drop_duplicates df)) =
        filter (\<lambda>r. r_property_id r = v) (rows (drop_duplicates df))"
    by (rule filter_cong) (use in_rows sub in auto)
  also have "\<dots> = take 1 (filter (\<lambda>r. r_property_id r = v) (rows df))"
    by (simp add: rows_drop_duplicates[OF assms] dedup_filter_value)
  also have "filter (\<lambda>r. r_property_id r = v) (rows df) =
             filter (\<lambda>r. is_null (r_property_id r)) (rows df)"
    by (rule filter_cong) (use in_rows in auto)
  finally show ?thesis .
qed

theorem null_identifiers_deduplicated_witness:
  "well_formed sample_listings \<and>
   filter (\<lambda>r. is_null (r_property_id r)) (rows (drop_duplicates sample_listings)) =
     take 1 (filter (\<lambda>r. is_null (r_property_id r)) (rows sample_listings)) \<and>
   map label (filter (\<lambda>r. is_null (r_property_id r)) (rows sample_listings)) = [2, 3]"
proof -
  have "map label (filter (\<lambda>r. is_null (r_property_id r)) (rows sample_listings)) = [2, 3]"
    by code_simp
  then show ?thesis
    using null_identifiers_deduplicated[OF sample_well_formed] sample_well_formed by simp
qed

text \<open>
  The claim as stated fails: of two listings without identifier the second is dropped, in
  a numeric identifier column by the deduplication itself, and in a text column too, where
  step 1 has made the text \<^verbatim>\<open>nan\<close> of both.
\<close>

theorem null_identifiers_counterexample:
  "idx (drop_duplicates
         (two_listings (NumberCol [NaN, NaN]) (ObjectCol [OStr ''Liege'', OStr ''Namur'']))) = [0] \<and>
   map_sum id idx
     (clean_immo_data exact parse_decimal
        (two_listings (ObjectCol [ONaN, ONaN]) (ObjectCol [OStr ''Liege'', OStr ''Namur'']))) =
     Inr [0]"
  by code_simp

subsection \<open>Postal codes\<close>

lemma cast_all_Inr:
  "(\<forall>x \<in> set xs. f x = Inr (g x)) \<Longrightarrow> cast_all f xs = Inr (map g xs)"
  by (induction xs) simp_all

lemma cast_all_Inl:
  "x \<in> set xs \<Longrightarrow> f x = Inl e \<Longrightarrow> \<exists>e'. cast_all f xs = Inl e'"
  by (induction xs) (auto split: sum.splits)

lemma int_of_float_whole:
  "x = NaN \<or> (\<exists>k. x = Fin (of_int k) \<and> in_int64 k) \<Longrightarrow>
     int_of_float x = Inr (case x of Fin r \<Rightarrow> Some \<lfloor>r\<rfloor> | _ \<Rightarrow> None)"
  by auto

lemma py_int_1000_0: "py_int ''1000.0'' = None"
  by (simp add: py_int_def strip_def is_space_def is_digit_def digit_val_def)

lemma show_int_1000: "show_int 1000 = ''1000''"
  by code_simp

text \<open>
  C6 (as amended). A postal code 1000.0 held in a numeric column becomes the text
  \<^verbatim>\<open>1000\<close>, and the conversion raises nothing when every value of the column is missing
  or a whole number of the 64-bit integer range, from \<open>- 2 ^ 63\<close> up to but not
  including \<open>2 ^ 63\<close> (a missing value becomes the text \<^verbatim>\<open><NA>\<close>). Held as the text
  \<^verbatim>\<open>1000.0\<close> in a text column, it makes the conversion raise: the text is no integer literal.
\<close>

theorem postal_code_normalized:
  "(postal_code df = Some (NumberCol xs) \<and>
      (\<forall>x \<in> set xs. x = NaN \<or> (\<exists>k. x = Fin (of_int k) \<and> in_int64 k)) \<longrightarrow>
      (\<exists>df3 cs. fix_data_types parse df = Inr df3 \<and> postal_code df3 = Some (ObjectCol cs) \<and>
         length cs = length xs \<and>
         (\<forall>i < length xs.
            (xs ! i = NaN \<longrightarrow> cs ! i = OStr ''<NA>'') \<and>
            (\<forall>k. xs ! i = Fin (of_int k) \<longrightarrow> cs ! i = OStr (show_int k)) \<and>
            (xs ! i = Fin 1000 \<longrightarrow> cs ! i = OStr ''1000'')))) \<and>
   (postal_code df = Some (ObjectCol ts) \<and> OStr ''1000.0'' \<in> set ts \<longrightarrow>
      (\<exists>e. fix_data_types parse df = Inl e))"
proof (intro conjI impI)
  assume a: "postal_code df = Some (NumberCol xs) \<and>
      (\<forall>x \<in> set xs. x = NaN \<or> (\<exists>k. x = Fin (of_int k) \<and> in_int64 k))"
  define g where "g = (\<lambda>x. case x of Fin r \<Rightarrow> Some \<lfloor>r\<rfloor> | _ \<Rightarrow> None)"
  define cs where "cs = map (\<lambda>v. OStr (str_of_Int64 v)) (map g xs)"
  have "int_of_float x = Inr (g x)" if "x \<in> set xs" for x
  proof -
    from a that have "x = NaN \<or> (\<exists>k. x = Fin (of_int k) \<and> in_int64 k)"
      by (elim conjE bspec)
    then show ?thesis unfolding g_def by (rule int_of_float_whole)
  qed
  then have "\<forall>x \<in> set xs. int_of_float x = Inr (g x)" by (rule ballI)
  then have "cast_all int_of_float xs = Inr (map g xs)"
    by (rule cast_all_Inr)
  then have f: "\<exists>df3. fix_data_types parse df = Inr df3 \<and> postal_code df3 = Some (ObjectCol cs)"
    using a by (simp add: fix_data_types_def Let_def cs_def)
  have c: "(xs ! i = NaN \<longrightarrow> cs ! i = OStr ''<NA>'') \<and>
            (\<forall>k. xs ! i = Fin (of_int k) \<longrightarrow> cs ! i = OStr (show_int k)) \<and>
            (xs ! i = Fin 1000 \<longrightarrow> cs ! i = OStr ''1000'')" if "i < length xs" for i
  proof -
    have ci: "cs ! i = OStr (str_of_Int64 (g (xs ! i)))"
      using that by (simp add: cs_def)
    have c1: "xs ! i = NaN \<longrightarrow> cs ! i = OStr ''<NA>''"
      by (simp add: ci g_def)
    have c2: "\<forall>k. xs ! i = Fin (of_int k) \<longrightarrow> cs ! i = OStr (show_int k)"
      by (simp add: ci g_def)
    have c3: "xs ! i = Fin 1000 \<longrightarrow> cs ! i = OStr ''1000''"
      by (simp add: ci g_def show_int_1000)
    from c1 c2 c3 show ?thesis by (intro conjI)
  qed
  have "length cs = length xs" by (simp add: cs_def)
  with f c show "\<exists>df3 cs. fix_data_types parse df = Inr df3 \<and> postal_code df3 = Some (ObjectCol cs) \<and>
         length cs = length xs \<and>
         (\<forall>i < length xs.
            (xs ! i = NaN \<longrightarrow> cs ! i = OStr ''<NA>'') \<and>
            (\<forall>k. xs ! i = Fin (of_int k) \<longrightarrow> cs ! i = OStr (show_int k)) \<and>
            (xs ! i = Fin 1000 \<longrightarrow> cs ! i = OStr ''1000''))"
    by blast
next
  assume a: "postal_code df = Some (ObjectCol ts) \<and> OStr ''1000.0'' \<in> set ts"
  have "int_of_obj (OStr ''1000.0'') = Inl ValueError"
    by (simp add: py_int_1000_0)
  moreover from a have "OStr ''1000.0'' \<in> set ts" by simp
  ultimately have "\<exists>e. cast_all int_of_obj ts = Inl e"
    by (rule cast_all_Inl[rotated])
  then obtain e where "cast_all int_of_obj ts = Inl e" ..
  then show "\<exists>e. fix_data_types parse df = Inl e"
    using a by (simp add: fix_data_types_def Let_def)
qed

text \<open>
  The claim as stated fails: with the postal code \<^verbatim>\<open>"1000.0"\<close> as text, the pipeline
  raises \<^verbatim>\<open>ValueError\<close> and returns no table.
\<close>

theorem postal_text_counterexample:
  "clean_immo_data exact parse_decimal (postal_listing (ObjectCol [OStr ''1000.0''])) = Inl ValueError"
  by code_simp


theorem postal_code_normalized_witness:
  "postal_code (postal_listing (NumberCol [Fin 1000])) = Some (NumberCol [Fin 1000]) \<and>
   in_int64 1000 \<and>
   (\<exists>df3 cs. fix_data_types parse_decimal (postal_listing (NumberCol [Fin 1000])) = Inr df3 \<and>
      postal_code df3 = Some (ObjectCol cs) \<and> cs ! 0 = OStr ''1000'') \<and>
   postal_code (postal_listing (ObjectCol [OStr ''1000.0''])) = Some (ObjectCol [OStr ''1000.0'']) \<and>
   (\<exists>e. fix_data_types parse_decimal (postal_listing (ObjectCol [OStr ''1000.0''])) = Inl e)"
proof -
  have p1: "postal_code (postal_listing (NumberCol [Fin 1000])) = Some (NumberCol [Fin 1000])"
    by (simp add: postal_listing_def table_def)
  have p2: "postal_code (postal_listing (ObjectCol [OStr ''1000.0''])) =
      Some (ObjectCol [OStr ''1000.0''])"
    by (simp add: postal_listing_def table_def)
  have k: "in_int64 1000"
    by (simp add: in_int64_def)
  have w: "\<forall>x \<in> set [Fin 1000]. x = NaN \<or> (\<exists>k. x = Fin (of_int k) \<and> in_int64 k)"
  proof (rule ballI)
    fix x :: f64
    assume "x \<in> set [Fin 1000]"
    then have "x = Fin (of_int 1000) \<and> in_int64 1000" using k by simp
    then have "\<exists>k. x = Fin (of_int k) \<and> in_int64 k" by (rule exI)
    then show "x = NaN \<or> (\<exists>k. x = Fin (of_int k) \<and> in_int64 k)" by (rule disjI2)
  qed
  have m: "OStr ''1000.0'' \<in> set [OStr ''1000.0'']"
    by simp
  note t = postal_code_normalized[where df = "postal_listing (NumberCol [Fin 1000])"
      and xs = "[Fin 1000]" and parse = parse_decimal and ts = "[]", THEN conjunct1, THEN mp,
      OF conjI[OF p1 w]]
  note u = postal_code_normalized[where df = "postal_listing (ObjectCol [OStr ''1000.0''])"
      and xs = "[]" and parse = parse_decimal and ts = "[OStr ''1000.0'']", THEN conjunct2,
      THEN mp, OF conjI[OF p2 m]]
  from t obtain df3 cs where
    d: "fix_data_types parse_decimal (postal_listing (NumberCol [Fin 1000])) = Inr df3"
       "postal_code df3 = Some (ObjectCol cs)" and
    c: "\<forall>i < length [Fin 1000 :: f64].
            ([Fin 1000] ! i = NaN \<longrightarrow> cs ! i = OStr ''<NA>'') \<and>
            (\<forall>k. [Fin 1000] ! i = Fin (of_int k) \<longrightarrow> cs ! i = OStr (show_int k)) \<and>
            ([Fin 1000] ! i = Fin 1000 \<longrightarrow> cs ! i = OStr ''1000'')"
    by (elim exE conjE)
  have l: "0 < length [Fin 1000 :: f64]"
    by simp
  from c l have "([Fin 1000] ! 0 = NaN \<longrightarrow> cs ! 0 = OStr ''<NA>'') \<and>
            (\<forall>k. [Fin 1000] ! 0 = Fin (of_int k) \<longrightarrow> cs ! 0 = OStr (show_int k)) \<and>
            ([Fin 1000] ! 0 = Fin 1000 \<longrightarrow> cs ! 0 = OStr ''1000'')"
    by blast
  then have "[Fin 1000] ! 0 = Fin 1000 \<longrightarrow> cs ! 0 = OStr ''1000''"
    by (elim conjE)
  then have "cs ! 0 = OStr ''1000''"
    by simp
  with d have "\<exists>df3 cs. fix_data_types parse_decimal (postal_listing (NumberCol [Fin 1000])) = Inr df3 \<and>
      postal_code df3 = Some (ObjectCol cs) \<and> cs ! 0 = OStr ''1000''"
    by (intro exI conjI)
  with p1 p2 k u show ?thesis by (intro conjI)
qed

subsection \<open>Row order\<close>

lemma subseq_select: "subseq (select m xs) xs"
  by (induction m xs rule: select.induct) auto

lemma length_compose_mask: "length (compose_mask m bs) = length m"
  by (induction m bs rule: compose_mask.induct) simp_all

lemma select_select: "select bs (select m xs) = select (compose_mask m bs) xs"
proof (induction m bs arbitrary: xs rule: compose_mask.induct)
  case (1 bs)
  then show ?case by simp
next
  case (2 m bs)
  then show ?case by (cases xs) simp_all
next
  case (3 m)
  then show ?case by (cases xs) simp_all
next
  case (4 m b bs)
  then show ?case by (cases xs) simp_all
qed

lemma select_col_select_col:
  "select_col bs (select_col m c) = select_col (compose_mask m bs) c"
  by (cases c) (simp_all add: select_select)

lemma replace_empty_col_select:
  "replace_empty_col (select_col m c) = select_col m (replace_empty_col c)"
  by (cases c) (simp_all add: select_map)

lemma to_numeric_select:
  "to_numeric parse (select_col m c) = select_col m (to_numeric parse c)"
  by (cases c) (simp_all add: select_map)

lemma length_first_occurrence: "length (first_occurrence c) = col_len c"
  by (cases c) (simp_all add: length_duplicated)

lemma col_len_strip_column: "col_len (strip_column c) = col_len c"
  by (cases c) simp_all

lemma select_unchanged:
  "select (map Q (zip ps as)) (map f ps) = select (map Q (zip ps as)) ps"
  if "\<And>p a. (p, a) \<in> set (zip ps as) \<Longrightarrow> Q (p, a) \<Longrightarrow> f p = p"
proof -
  have "\<forall>z \<in> set (filter Q (zip ps as)). (f \<circ> fst) z = (id \<circ> fst) z"
    using that by auto
  then have "map (f \<circ> fst) (filter Q (zip ps as)) = map (id \<circ> fst) (filter Q (zip ps as))"
    by simp
  then show ?thesis
    using select_mask_fst[of Q ps as f] select_mask_fst[of Q ps as id] by simp
qed

lemma select_unchanged_snd:
  "select (map Q (zip ps as)) (map g as) = select (map Q (zip ps as)) as"
  if "\<And>p a. (p, a) \<in> set (zip ps as) \<Longrightarrow> Q (p, a) \<Longrightarrow> g a = a"
proof -
  have "\<forall>z \<in> set (filter Q (zip ps as)). (g \<circ> snd) z = (id \<circ> snd) z"
    using that by auto
  then have "map (g \<circ> snd) (filter Q (zip ps as)) = map (id \<circ> snd) (filter Q (zip ps as))"
    by simp
  then show ?thesis
    using select_mask_snd[of Q ps as g] select_mask_snd[of Q ps as id] by simp
qed

text \<open>
  C10. The pipeline keeps the input order. The table it returns is one selection of
  rows, by a single mask, from the input whose cells have been rewritten: the labels of
  the output are a subsequence of the labels of the input, and every column of the output
  is the rewritten input column at the selected positions. No stage reorders rows.
\<close>

theorem pipeline_preserves_order:
  assumes "clean_immo_data rnd parse df = Inr out" and "well_formed df"
  shows "\<exists>m. length m = length (idx df) \<and>
           idx out = select m (idx df) \<and>
           property_id out = select_col m (strip_column (property_id df)) \<and>
           price out = select_col m (to_numeric parse (strip_column (price df))) \<and>
           living_area out = select_col m (to_numeric parse (strip_column (living_area df))) \<and>
           number_rooms out = select_col m (to_numeric parse (strip_column (number_rooms df))) \<and>
           facades out = select_col m (to_numeric parse (strip_column (facades df))) \<and>
           province out = select_col m (replace_empty_col (strip_column (province df))) \<and>
           subseq (idx out) (idx df)"
proof -
  from assms(1) obtain df3 df4 ps as where
    f: "fix_data_types parse (drop_duplicates (strip_whitespace df)) = Inr df3" and
    d4: "df4 = remove_rows_without_province df3" and
    p: "price df4 = NumberCol ps" and a: "living_area df4 = NumberCol as" and
    out: "out = dropna_price_area
             (df4 \<lparr> price_per_m2 := Some (NumberCol (map2 (fdiv rnd) ps as)),
                    price := NumberCol (map (where_between (outlier_bounds rnd ps)) ps),
                    living_area := NumberCol (map (where_between (outlier_bounds rnd as)) as) \<rparr>)"
    by (rule clean_immo_data_Inr)
  define wp where "wp = where_between (outlier_bounds rnd ps)"
  define wa where "wa = where_between (outlier_bounds rnd as)"
  define Q where "Q = (\<lambda>(p, a). wp p \<noteq> NaN \<and> wa a \<noteq> NaN)"
  define m1 where "m1 = first_occurrence (strip_column (property_id df))"
  define m2 where "m2 = notna (replace_empty_col (province df3))"
  define m3 where "m3 = map Q (zip ps as)"
  define m where "m = compose_mask (compose_mask m1 m2) m3"
  have mask: "map2 (\<and>) (map (\<lambda>x. x \<noteq> NaN) (map wp ps)) (map (\<lambda>x. x \<noteq> NaN) (map wa as)) = m3"
    unfolding Q_def m3_def by (rule map2_conj_notna)
  have sel: "select bs (select m2 (select m1 xs)) = select (compose_mask (compose_mask m1 m2) bs) xs"
    for bs and xs :: "'a list"
    by (simp add: select_select)
  have selc: "select_col bs (select_col m2 (select_col m1 c)) =
      select_col (compose_mask (compose_mask m1 m2) bs) c" for bs c
    by (simp add: select_col_select_col)
  have len: "length m = length (idx df)"
    using assms(2)
    by (simp add: m_def m1_def length_compose_mask length_first_occurrence col_len_strip_column
        well_formed_def Let_def)
  have d2: "drop_duplicates (strip_whitespace df) = select_rows m1 (strip_whitespace df)"
    by (simp add: drop_duplicates_def m1_def strip_whitespace_def)
  note f3 = fix_data_types_Inr[OF f, unfolded d2]
  have d4': "df4 = select_rows m2 (df3 \<lparr> province := replace_empty_col (province df3) \<rparr>)"
    by (simp add: d4 remove_rows_without_province_def Let_def m2_def)
  have o: "out = select_rows m3 (df4 \<lparr> price_per_m2 := Some (NumberCol (map2 (fdiv rnd) ps as)),
                    price := NumberCol (map wp ps), living_area := NumberCol (map wa as) \<rparr>)"
    unfolding out dropna_price_area_def
    by (simp add: wp_def[symmetric] wa_def[symmetric] mask del: map_map)
  have i: "idx out = select m (idx df)"
    by (simp add: o d4' f3 strip_whitespace_def sel m_def)
  have pid: "property_id out = select_col m (strip_column (property_id df))"
    by (simp add: o d4' f3 strip_whitespace_def selc m_def)
  have nr: "number_rooms out = select_col m (to_numeric parse (strip_column (number_rooms df)))"
    by (simp add: o d4' f3 strip_whitespace_def to_numeric_select selc m_def)
  have fa: "facades out = select_col m (to_numeric parse (strip_column (facades df)))"
    by (simp add: o d4' f3 strip_whitespace_def to_numeric_select selc m_def)
  have pv: "province out = select_col m (replace_empty_col (strip_column (province df)))"
    by (simp add: o d4' f3 strip_whitespace_def replace_empty_col_select selc m_def)
  have keep_p: "select m3 (map wp ps) = select m3 ps"
    unfolding m3_def
    by (rule select_unchanged) (auto simp: Q_def wp_def dest: where_between_not_NaN)
  have keep_a: "select m3 (map wa as) = select m3 as"
    unfolding m3_def
    by (rule select_unchanged_snd) (auto simp: Q_def wa_def dest: where_between_not_NaN)
  have "price out = select_col m3 (price df4)"
    by (simp add: o p keep_p)
  then have pr: "price out = select_col m (to_numeric parse (strip_column (price df)))"
    by (simp add: d4' f3 strip_whitespace_def to_numeric_select selc m_def)
  have "living_area out = select_col m3 (living_area df4)"
    by (simp add: o a keep_a)
  then have la: "living_area out = select_col m (to_numeric parse (strip_column (living_area df)))"
    by (simp add: d4' f3 strip_whitespace_def to_numeric_select selc m_def)
  have "subseq (idx out) (idx df)"
    unfolding i by (rule subseq_select)
  with len i pid pr la nr fa pv show ?thesis by blast
qed

theorem pipeline_preserves_order_witness:
  "clean_immo_data exact parse_decimal sample_listings = Inr sample_cleaned \<and>
   well_formed sample_listings \<and>
   (\<exists>m. length m = length (idx sample_listings) \<and>
        idx sample_cleaned = select m (idx sample_listings) \<and>
        property_id sample_cleaned = select_col m (strip_column (property_id sample_listings)) \<and>
        province sample_cleaned =
          select_col m (replace_empty_col (strip_column (province sample_listings)))) \<and>
   subseq (idx sample_cleaned) (idx sample_listings) \<and>
   idx sample_cleaned = [0, 2, 4]"
proof -
  have "idx sample_cleaned = [0, 2, 4]"
    by (simp add: sample_cleaned_def)
  then show ?thesis
    using pipeline_preserves_order[OF sample_listings_cleaned sample_well_formed]
      sample_listings_cleaned sample_well_formed
    by blast
qed

subsection \<open>The outlier filter\<close>

lemma quantile_drops_nulls: "quantile rnd q (filter (\<lambda>x. x \<noteq> NaN) xs) = quantile rnd q xs"
  by (simp add: quantile_def)

lemma where_between_cases:
  "where_between (lo, hi) x = (if x \<noteq> NaN \<and> fle lo x \<and> fle x hi then x else NaN)"
  by (cases x) (simp_all add: where_between_def between_def)

lemma where_between_NaN_iff:
  "(where_between b x \<noteq> NaN) = between (fst b) (snd b) x"
  by (cases x) (simp_all add: where_between_def between_def)

text \<open>
  The sort of the quantile is a sort: on finite values it is the sort of the rationals.
  So a quantile of finite values is the interpolation between the values of two
  neighbouring ranks of the ascending order.
\<close>

lemma insort_f64_Fin: "insort_f64 (Fin a) (map Fin ys) = map Fin (insort a ys)"
  by (induction ys) auto

lemma sort_f64_Fin: "sort_f64 (map Fin rs) = map Fin (sort rs)"
proof (induction rs)
  case Nil
  then show ?case by (simp add: sort_f64_def)
next
  case (Cons r rs)
  have "sort_f64 (map Fin (r # rs)) = insort_f64 (Fin r) (sort_f64 (map Fin rs))"
    by (simp add: sort_f64_def)
  also have "\<dots> = map Fin (insort r (sort rs))"
    by (simp only: Cons.IH insort_f64_Fin)
  finally show ?case by (simp add: sort_key_simps)
qed

lemma quantile_rank:
  assumes "filter (\<lambda>x. x \<noteq> NaN) xs = map Fin rs" and "rs \<noteq> []" and "0 \<le> q" and "q \<le> 1"
  shows "quantile rnd q xs =
           (let s = sort rs;
                n = length rs;
                pos = q * of_nat (n - 1);
                lo = nat \<lfloor>pos\<rfloor>;
                hi = min (lo + 1) (n - 1)
            in lerp rnd (Fin (s ! lo)) (Fin (s ! hi)) (pos - of_nat lo))"
proof -
  define n where "n = length rs"
  define pos where "pos = q * of_nat (n - 1)"
  define lo where "lo = nat \<lfloor>pos\<rfloor>"
  define hi where "hi = min (lo + 1) (n - 1)"
  have n: "0 < n" using assms(2) by (simp add: n_def)
  have "q * of_nat (n - 1) \<le> 1 * (of_nat (n - 1) :: rat)"
    by (rule mult_right_mono) (use assms(4) in simp_all)
  then have "pos \<le> of_nat (n - 1)"
    by (simp add: pos_def)
  then have "\<lfloor>pos\<rfloor> \<le> int (n - 1)"
    by (simp add: floor_le_iff)
  then have lo: "lo < n" using n by (simp add: lo_def)
  have hi: "hi < n" using n by (simp add: hi_def)
  have vs: "sort_f64 (filter (\<lambda>x. x \<noteq> NaN) xs) = map Fin (sort rs)"
    by (simp only: assms(1) sort_f64_Fin)
  have "quantile rnd q xs = lerp rnd (map Fin (sort rs) ! lo) (map Fin (sort rs) ! hi) (pos - of_nat lo)"
  proof -
    have "length (sort rs) \<noteq> 0" using assms(2) by simp
    then have "sort rs \<noteq> []" by (simp del: length_sort)
    then show ?thesis
      by (simp add: quantile_def vs Let_def n_def pos_def lo_def hi_def)
  qed
  also have "map Fin (sort rs) ! lo = Fin (sort rs ! lo)"
    using lo by (simp add: n_def)
  also have "map Fin (sort rs) ! hi = Fin (sort rs ! hi)"
    using hi by (simp add: n_def)
  finally show ?thesis
    by (simp add: Let_def n_def pos_def lo_def hi_def)
qed

lemma lerp_exact: "lerp exact (Fin a) (Fin b) t = Fin (a + (b - a) * t)"
  by (simp add: lerp_def fsub_def round_to_def exact_def algebra_simps)

lemma between_NaN: "\<not> between NaN hi x \<and> \<not> between lo NaN x"
  by (cases x) (simp_all add: between_def)

text \<open>
  C3 (as amended). The outlier filter runs on \<^verbatim>\<open>price\<close> and on \<^verbatim>\<open>living_area\<close>, each
  with the bounds of its own column. The quartiles are taken over the values of the column
  that are not missing: a quartile of finite values is the interpolation, computed in
  floating point, between the values at the ranks \<open>\<lfloor>q (n - 1)\<rfloor>\<close> and the next one of
  their ascending order, which without rounding is the linear interpolation. The bounds
  are Q1 - 1.5 IQR and Q3 + 1.5 IQR as the floating-point operations give them. A value
  \<open>x\<close> is kept unchanged when \<open>lower \<le> x \<le> upper\<close> holds (the bounds are inclusive) and
  is replaced by the missing marker otherwise: when it lies strictly outside the bounds,
  and also whenever a bound is \<open>NaN\<close>, in which case every value is replaced. A missing
  value stays missing. The bounds of \<^verbatim>\<open>living_area\<close> are those of the whole column, no row
  having been removed after the filter of \<^verbatim>\<open>price\<close>. Only then the rows with a missing
  value in either column go.
\<close>

theorem outlier_filter_iqr:
  assumes "price df = NumberCol ps" and "living_area df = NumberCol as"
  shows "remove_price_area_outliers rnd df =
           Inr (df \<lparr> price := NumberCol (map (where_between (outlier_bounds rnd ps)) ps),
                     living_area := NumberCol (map (where_between (outlier_bounds rnd as)) as) \<rparr>) \<and>
         dropna_price_area
           (df \<lparr> price := NumberCol (map (where_between (outlier_bounds rnd ps)) ps),
                 living_area := NumberCol (map (where_between (outlier_bounds rnd as)) as) \<rparr>) =
           select_rows
             (map (\<lambda>(p, a). between (fst (outlier_bounds rnd ps)) (snd (outlier_bounds rnd ps)) p \<and>
                             between (fst (outlier_bounds rnd as)) (snd (outlier_bounds rnd as)) a)
                (zip ps as))
             (df \<lparr> price := NumberCol (map (where_between (outlier_bounds rnd ps)) ps),
                   living_area := NumberCol (map (where_between (outlier_bounds rnd as)) as) \<rparr>) \<and>
         outlier_bounds rnd xs =
           (let q1 = quantile rnd (1 / 4) (filter (\<lambda>x. x \<noteq> NaN) xs);
                q3 = quantile rnd (3 / 4) (filter (\<lambda>x. x \<noteq> NaN) xs);
                iqr = fsub rnd q3 q1
            in (fsub rnd q1 (fmul rnd (Fin (3 / 2)) iqr), fadd rnd q3 (fmul rnd (Fin (3 / 2)) iqr))) \<and>
         (filter (\<lambda>x. x \<noteq> NaN) xs = map Fin rs \<and> rs \<noteq> [] \<and> 0 \<le> q \<and> q \<le> 1 \<longrightarrow>
            quantile rnd q xs =
              (let s = sort rs;
                   n = length rs;
                   pos = q * of_nat (n - 1);
                   lo = nat \<lfloor>pos\<rfloor>;
                   hi = min (lo + 1) (n - 1)
               in lerp rnd (Fin (s ! lo)) (Fin (s ! hi)) (pos - of_nat lo))) \<and>
         lerp exact (Fin a) (Fin b) t = Fin (a + (b - a) * t) \<and>
         where_between (lo, hi) x = (if x \<noteq> NaN \<and> fle lo x \<and> fle x hi then x else NaN) \<and>
         between (Fin l) (Fin u) (Fin v) = (l \<le> v \<and> v \<le> u) \<and>
         \<not> between NaN hi x \<and> \<not> between lo NaN x"
proof -
  have r: "remove_price_area_outliers rnd df =
           Inr (df \<lparr> price := NumberCol (map (where_between (outlier_bounds rnd ps)) ps),
                     living_area := NumberCol (map (where_between (outlier_bounds rnd as)) as) \<rparr>)"
    using assms by (simp add: remove_price_area_outliers_def)
  have "map2 (\<and>) (map (\<lambda>x. x \<noteq> NaN) (map (where_between (outlier_bounds rnd ps)) ps))
          (map (\<lambda>x. x \<noteq> NaN) (map (where_between (outlier_bounds rnd as)) as)) =
        map (\<lambda>(p, a). where_between (outlier_bounds rnd ps) p \<noteq> NaN \<and>
                        where_between (outlier_bounds rnd as) a \<noteq> NaN) (zip ps as)"
    by (rule map2_conj_notna)
  then have d: "dropna_price_area
           (df \<lparr> price := NumberCol (map (where_between (outlier_bounds rnd ps)) ps),
                 living_area := NumberCol (map (where_between (outlier_bounds rnd as)) as) \<rparr>) =
           select_rows
             (map (\<lambda>(p, a). between (fst (outlier_bounds rnd ps)) (snd (outlier_bounds rnd ps)) p \<and>
                             between (fst (outlier_bounds rnd as)) (snd (outlier_bounds rnd as)) a)
                (zip ps as))
             (df \<lparr> price := NumberCol (map (where_between (outlier_bounds rnd ps)) ps),
                   living_area := NumberCol (map (where_between (outlier_bounds rnd as)) as) \<rparr>)"
    by (simp add: dropna_price_area_def where_between_NaN_iff del: map_map)
  have b: "outlier_bounds rnd xs =
           (let q1 = quantile rnd (1 / 4) (filter (\<lambda>x. x \<noteq> NaN) xs);
                q3 = quantile rnd (3 / 4) (filter (\<lambda>x. x \<noteq> NaN) xs);
                iqr = fsub rnd q3 q1
            in (fsub rnd q1 (fmul rnd (Fin (3 / 2)) iqr), fadd rnd q3 (fmul rnd (Fin (3 / 2)) iqr)))"
    by (simp add: outlier_bounds_def quantile_drops_nulls Let_def)
  have k: "filter (\<lambda>x. x \<noteq> NaN) xs = map Fin rs \<and> rs \<noteq> [] \<and> 0 \<le> q \<and> q \<le> 1 \<longrightarrow>
            quantile rnd q xs =
              (let s = sort rs;
                   n = length rs;
                   pos = q * of_nat (n - 1);
                   lo = nat \<lfloor>pos\<rfloor>;
                   hi = min (lo + 1) (n - 1)
               in lerp rnd (Fin (s ! lo)) (Fin (s ! hi)) (pos - of_nat lo))"
    using quantile_rank[of xs rs q rnd] by blast
  have e: "lerp exact (Fin a) (Fin b) t = Fin (a + (b - a) * t)"
    by (rule lerp_exact)
  have w: "where_between (lo, hi) x = (if x \<noteq> NaN \<and> fle lo x \<and> fle x hi then x else NaN)"
    by (rule where_between_cases)
  have i: "between (Fin l) (Fin u) (Fin v) = (l \<le> v \<and> v \<le> u)"
    by (simp add: between_def)
  have n: "\<not> between NaN hi x \<and> \<not> between lo NaN x"
    by (rule between_NaN)
  from r d b k e w i n show ?thesis by (intro conjI) simp_all
qed

text \<open>
  The claim as stated fails: of the prices 1, 2, 3, 4 and infinity the third quartile is
  \<open>NaN\<close> (the interpolation multiplies an infinite difference by zero), so both bounds are
  \<open>NaN\<close> and every price is replaced by the missing marker, though none lies strictly
  outside the bounds. No row of these five listings reaches the output.
\<close>

theorem nan_bounds_counterexample:
  "outlier_bounds exact [Fin 1, Fin 2, Fin 3, Fin 4, PInf] = (NaN, NaN) \<and>
   remove_outliers exact (NumberCol [Fin 1, Fin 2, Fin 3, Fin 4, PInf]) =
     Inr (NumberCol [NaN, NaN, NaN, NaN, NaN]) \<and>
   map_sum id idx (clean_immo_data exact parse_decimal five_listings) = Inr []"
  by code_simp

lemma four_listings_columns:
  "price four_listings = NumberCol [Fin 100000, Fin 105000, Fin 110000, Fin 1000000]"
  "living_area four_listings = NumberCol [Fin 80, Fin 90, Fin 100, Fin 95]"
  by (simp_all add: four_listings_def table_def)

lemma four_listings_bounds:
  "outlier_bounds exact [Fin 100000, Fin 105000, Fin 110000, Fin 1000000] = (Fin (- 239375), Fin 675625)"
  "map (where_between (outlier_bounds exact [Fin 100000, Fin 105000, Fin 110000, Fin 1000000]))
     [Fin 100000, Fin 105000, Fin 110000, Fin 1000000] = [Fin 100000, Fin 105000, Fin 110000, NaN]"
  "map (where_between (outlier_bounds exact [Fin 80, Fin 90, Fin 100, Fin 95]))
     [Fin 80, Fin 90, Fin 100, Fin 95] = [Fin 80, Fin 90, Fin 100, Fin 95]"
  by code_simp+

theorem outlier_filter_iqr_witness:
  "price four_listings = NumberCol [Fin 100000, Fin 105000, Fin 110000, Fin 1000000] \<and>
   living_area four_listings = NumberCol [Fin 80, Fin 90, Fin 100, Fin 95] \<and>
   remove_price_area_outliers exact four_listings =
     Inr (four_listings \<lparr> price := NumberCol [Fin 100000, Fin 105000, Fin 110000, NaN],
                           living_area := NumberCol [Fin 80, Fin 90, Fin 100, Fin 95] \<rparr>) \<and>
   outlier_bounds exact [Fin 100000, Fin 105000, Fin 110000, Fin 1000000] =
     (Fin (- 239375), Fin 675625) \<and>
   filter (\<lambda>x. x \<noteq> NaN) [Fin 1000000, NaN, Fin 100000, Fin 110000, Fin 105000] =
     map Fin [1000000, 100000, 110000, 105000] \<and>
   quantile exact (1 / 4) [Fin 1000000, NaN, Fin 100000, Fin 110000, Fin 105000] = Fin 103750"
proof -
  let ?xs = "[Fin 1000000, NaN, Fin 100000, Fin 110000, Fin 105000]"
  let ?rs = "[1000000, 100000, 110000, 105000 :: rat]"
  note t = outlier_filter_iqr[where rnd = exact and xs = ?xs and rs = ?rs and q = "1 / 4"
      and a = 100000 and b = 105000 and t = "3 / 4", OF four_listings_columns]
  have f: "filter (\<lambda>x. x \<noteq> NaN) ?xs = map Fin ?rs"
    by simp
  have s: "sort ?rs = [100000, 105000, 110000, 1000000]"
    by simp
  have c1: "remove_price_area_outliers exact four_listings =
     Inr (four_listings \<lparr> price := NumberCol [Fin 100000, Fin 105000, Fin 110000, NaN],
                           living_area := NumberCol [Fin 80, Fin 90, Fin 100, Fin 95] \<rparr>)"
    using t[THEN conjunct1] four_listings_bounds by simp
  have "filter (\<lambda>x. x \<noteq> NaN) ?xs = map Fin ?rs \<and> ?rs \<noteq> [] \<and> (0 :: rat) \<le> 1 / 4 \<and>
      (1 / 4 :: rat) \<le> 1"
    using f by simp
  then have "quantile exact (1 / 4) ?xs =
      (let s = sort ?rs; n = length ?rs; pos = 1 / 4 * of_nat (n - 1); lo = nat \<lfloor>pos\<rfloor>;
           hi = min (lo + 1) (n - 1)
       in lerp exact (Fin (s ! lo)) (Fin (s ! hi)) (pos - of_nat lo))"
    by (rule t[THEN conjunct2, THEN conjunct2, THEN conjunct2, THEN conjunct1, THEN mp])
  also have "\<dots> = lerp exact (Fin 100000) (Fin 105000) (3 / 4)"
  proof -
    have "\<lfloor>3 / 4 :: rat\<rfloor> = 0"
      by code_simp
    then show ?thesis
      unfolding s by (simp add: Let_def)
  qed
  also have "\<dots> = Fin 103750"
    using t[THEN conjunct2, THEN conjunct2, THEN conjunct2, THEN conjunct2, THEN conjunct1]
    by simp
  finally have q: "quantile exact (1 / 4) ?xs = Fin 103750" .
  from c1 q f four_listings_columns four_listings_bounds(1) show ?thesis
    by (intro conjI)
qed

text \<open>
  The example of the specification: of the prices 100000, 105000, 110000 and 1000000
  the last one is an outlier, and its row is not in the output.
\<close>

lemma four_listings_cleaned:
  "map_sum id idx (clean_immo_data exact parse_decimal four_listings) = Inr [0, 1, 2]"
  by code_simp

end
